theory Spec2Isabelle
  imports Complex_Main
begin

section \<open>Subscription quota ledger, pre-order lifecycle and billing sweep\<close>

text \<open>
  A shallow embedding of \<^verbatim>\<open>services/subscription_service.py\<close> over the columns of
  \<^verbatim>\<open>models/subscription.py\<close>.  Every method of \<^verbatim>\<open>SubscriptionService\<close> that the
  quota and billing logic goes through is a function from the state of the database
  session to a result and the state afterwards; a raised exception is the \<open>Inl\<close> result,
  paired with the state the session is in at the moment of the raise.
\<close>

subsection \<open>Python values\<close>

text \<open>
  A naive \<^verbatim>\<open>datetime\<close> is the number of microseconds since 0001-01-01T00:00:00, so that
  comparison of datetimes is comparison of integers and \<^verbatim>\<open>timedelta(days=n)\<close> is a
  multiple of the microseconds of a day.  \<^verbatim>\<open>.date()\<close> is the number of whole days
  (the proleptic Gregorian ordinal minus one).
\<close>

type_synonym datetime = int

definition usec_per_day :: int where
  "usec_per_day = 86400000000"

definition timedelta_days :: "int \<Rightarrow> int" where
  "timedelta_days n = n * usec_per_day"

definition date_of :: "datetime \<Rightarrow> int" where
  "date_of t = t div usec_per_day"

definition DAYS_IN_MONTH :: "int \<Rightarrow> int" where
  "DAYS_IN_MONTH m =
     (if m = 2 then 28 else if m = 4 \<or> m = 6 \<or> m = 9 \<or> m = 11 then 30 else 31)"

definition DAYS_BEFORE_MONTH :: "int \<Rightarrow> int" where
  "DAYS_BEFORE_MONTH m =
     (if m = 1 then 0 else if m = 2 then 31 else if m = 3 then 59 else if m = 4 then 90
      else if m = 5 then 120 else if m = 6 then 151 else if m = 7 then 181
      else if m = 8 then 212 else if m = 9 then 243 else if m = 10 then 273
      else if m = 11 then 304 else 334)"

text \<open>
  The day of the month of a day number, by the steps of the standard library's
  \<^verbatim>\<open>_ord2ymd\<close>: 400-year, 100-year and 4-year cycles, then the year, then the month
  estimated as \<open>(n + 50) >> 5\<close> and corrected downwards.
\<close>

definition day_of_month :: "int \<Rightarrow> int" where
  "day_of_month d =
     (let n = d mod 146097;
          n100 = n div 36524; na = n mod 36524;
          n4 = na div 1461; nb = na mod 1461;
          n1 = nb div 365; nc = nb mod 365
      in if n1 = 4 \<or> n100 = 4 then 31
         else
           let leapyear = (n1 = 3 \<and> (n4 \<noteq> 24 \<or> n100 = 3));
               month = (nc + 50) div 32;
               preceding = DAYS_BEFORE_MONTH month
                             + (if 2 < month \<and> leapyear then 1 else 0)
           in if nc < preceding
              then nc - (preceding - (DAYS_IN_MONTH (month - 1)
                           + (if month - 1 = 2 \<and> leapyear then 1 else 0))) + 1
              else nc - preceding + 1)"

text \<open>\<^verbatim>\<open>now.replace(day=1, hour=0, minute=0, second=0, microsecond=0)\<close>\<close>

definition month_start :: "datetime \<Rightarrow> datetime" where
  "month_start now = (date_of now - (day_of_month (date_of now) - 1)) * usec_per_day"

text \<open>
  A Python \<^verbatim>\<open>float\<close> is a binary64 number.  Its value is a real, and every arithmetic
  operation returns the exact result rounded to the nearest number with a 53-bit
  significand, ties to the even significand.  \<open>normalise\<close> scales a positive real into
  \<open>[2^52, 2^53)\<close>, keeping the power of two it took out; the 1074 steps are the depth of
  the binary64 exponent range below one, so that a number too small to normalise is
  rounded on the subnormal grid.  Infinities and NaN (results beyond the largest finite
  binary64 number) have no value here.
\<close>

type_synonym float = real

fun normalise :: "nat \<Rightarrow> real \<Rightarrow> real \<Rightarrow> real \<times> real" where
  "normalise 0 m s = (m, s)"
| "normalise (Suc n) m s =
     (if 2 ^ 53 \<le> m then normalise n (m / 2) (s * 2)
      else if m < 2 ^ 52 then normalise n (m * 2) (s / 2)
      else (m, s))"

definition round_half_even :: "real \<Rightarrow> int" where
  "round_half_even m =
     (let f = \<lfloor>m\<rfloor>; r = m - of_int f
      in if r < 1 / 2 then f else if 1 / 2 < r then f + 1
         else if even f then f else f + 1)"

definition rnd_pos :: "real \<Rightarrow> real" where
  "rnd_pos x = (case normalise 1074 x 1 of (m, s) \<Rightarrow> of_int (round_half_even m) * s)"

definition rnd :: "real \<Rightarrow> float" where
  "rnd x = (if x < 0 then - rnd_pos (- x) else rnd_pos x)"

definition fadd :: "float \<Rightarrow> float \<Rightarrow> float" where
  "fadd x y = rnd (x + y)"

definition fsub :: "float \<Rightarrow> float \<Rightarrow> float" where
  "fsub x y = rnd (x - y)"

definition fmul :: "float \<Rightarrow> float \<Rightarrow> float" where
  "fmul x y = rnd (x * y)"

definition fdiv :: "float \<Rightarrow> float \<Rightarrow> float" where
  "fdiv x y = rnd (x / y)"

text \<open>
  The conversion of an \<^verbatim>\<open>int\<close> operand in mixed arithmetic.  It raises
  \<^verbatim>\<open>OverflowError\<close> for an integer that rounds beyond the largest binary64 number
  \<open>2^1024 - 2^971\<close>, that is from the midpoint \<open>2^1024 - 2^970\<close> on; \<open>fits_float\<close> is the
  range in which it returns.
\<close>

definition fits_float :: "int \<Rightarrow> bool" where
  "fits_float i \<longleftrightarrow> \<bar>i\<bar> < 2 ^ 1024 - 2 ^ 970"

definition float_of_int :: "int \<Rightarrow> float" where
  "float_of_int i = rnd (of_int i)"

text \<open>
  \<^verbatim>\<open>x or y\<close> on a nullable float column: \<^verbatim>\<open>None\<close> and \<^verbatim>\<open>0.0\<close> are both falsy.
\<close>

definition or_float :: "float option \<Rightarrow> float \<Rightarrow> float" where
  "or_float x y = (case x of None \<Rightarrow> y | Some v \<Rightarrow> if v = 0 then y else v)"

subsection \<open>The tables of \<^verbatim>\<open>models/subscription.py\<close>\<close>

text \<open>
  One record per mapped class, with the columns the service reads or writes.  Status
  and frequency columns are \<^verbatim>\<open>String\<close> columns compared with the \<^verbatim>\<open>.value\<close> of an
  enum member, so they are strings here.  A column without a default is nullable and
  is an \<open>option\<close>; \<^verbatim>\<open>Float\<close> columns are floats; \<^verbatim>\<open>Integer\<close> columns are integers.
\<close>

abbreviation SubscriptionStatus_ACTIVE :: string where
  "SubscriptionStatus_ACTIVE \<equiv> ''active''"

abbreviation SubscriptionStatus_CANCELLED :: string where
  "SubscriptionStatus_CANCELLED \<equiv> ''cancelled''"

abbreviation PreOrderStatus_PENDING :: string where
  "PreOrderStatus_PENDING \<equiv> ''pending''"

abbreviation PreOrderStatus_CONFIRMED :: string where
  "PreOrderStatus_CONFIRMED \<equiv> ''confirmed''"

abbreviation PreOrderStatus_PROCESSING :: string where
  "PreOrderStatus_PROCESSING \<equiv> ''processing''"

abbreviation PreOrderStatus_FULFILLED :: string where
  "PreOrderStatus_FULFILLED \<equiv> ''fulfilled''"

abbreviation PreOrderStatus_CANCELLED :: string where
  "PreOrderStatus_CANCELLED \<equiv> ''cancelled''"

abbreviation PaymentFrequency_MONTHLY :: string where
  "PaymentFrequency_MONTHLY \<equiv> ''monthly''"

abbreviation PaymentFrequency_QUARTERLY :: string where
  "PaymentFrequency_QUARTERLY \<equiv> ''quarterly''"

abbreviation PaymentFrequency_ANNUALLY :: string where
  "PaymentFrequency_ANNUALLY \<equiv> ''annually''"

record subscription_plan =
  plan_id :: int
  plan_name :: string
  price :: float
  billing_frequency :: string
  preorder_limit_per_month :: int
  preorder_value_limit :: float
  discount_percentage :: float
  plan_is_active :: bool

record subscription =
  sub_id :: int
  sub_customer_id :: int
  subscription_plan_id :: int
  sub_status :: string
  end_date :: "datetime option"
  next_billing_date :: "datetime option"
  monthly_preorder_limit :: int
  current_month_preorders :: int
  total_preorder_value_limit :: float
  current_preorder_value :: float
  payment_method_id :: "string option"
  auto_renew :: bool

record product =
  prod_id :: int
  is_pre_order_eligible :: bool
  pre_order_start_date :: "datetime option"
  pre_order_end_date :: "datetime option"
  expected_availability_date :: "datetime option"
  pre_order_limit :: "int option"
  current_pre_orders :: int
  base_price :: float
  pre_order_price :: "float option"
  prod_is_active :: bool

record pre_order =
  po_id :: int
  po_subscription_id :: int
  po_customer_id :: int
  po_product_id :: int
  po_product_variant_id :: "int option"
  quantity :: int
  unit_price :: float
  discount_applied :: float
  total_amount :: float
  po_status :: string
  po_expected_availability_date :: "datetime option"
  pre_order_deadline :: "datetime option"
  priority_level :: int
  payment_status :: string
  payment_intent_id :: "string option"
  po_created_at :: datetime

record tables =
  subscriptions :: "subscription list"
  subscription_plans :: "subscription_plan list"
  products :: "product list"
  pre_orders :: "pre_order list"

subsection \<open>Exceptions and collaborators\<close>

text \<open>
  Every \<^verbatim>\<open>raise ValueError(msg)\<close> of the service is \<open>ValueError msg\<close>.  Reading an
  attribute of a relationship that is \<^verbatim>\<open>None\<close> is an \<open>AttributeError\<close>, adding a
  \<^verbatim>\<open>timedelta\<close> to \<^verbatim>\<open>None\<close> a \<open>TypeError\<close>.  An \<open>OverflowError\<close> is raised where a
  Python \<^verbatim>\<open>int\<close> is too large for the float or for the column it is converted to.
  \<open>PaymentFailed\<close> and \<open>RefundFailed\<close> are what the payment collaborator raises.  The
  abbreviations below name the raises by the error kinds of the specification.
\<close>

datatype error =
    ValueError string
  | AttributeError string
  | TypeError string
  | OverflowError string
  | PaymentFailed string
  | RefundFailed string

abbreviation QuotaExceeded_count :: error where
  "QuotaExceeded_count \<equiv> ValueError ''Monthly pre-order limit exceeded''"

abbreviation QuotaExceeded_value :: error where
  "QuotaExceeded_value \<equiv> ValueError ''Monthly pre-order value limit exceeded''"

abbreviation OverflowError_float :: error where
  "OverflowError_float \<equiv> OverflowError ''int too large to convert to float''"

abbreviation OverflowError_store :: error where
  "OverflowError_store \<equiv> OverflowError ''Python int too large to convert to SQLite INTEGER''"

abbreviation InvalidState_already_cancelled :: error where
  "InvalidState_already_cancelled \<equiv> ValueError ''Pre-order already cancelled''"

abbreviation InvalidState_not_cancellable :: error where
  "InvalidState_not_cancellable \<equiv> ValueError ''Cannot cancel pre-order in current status''"

text \<open>
  Modelled from the spec: the payment collaborator (\<^verbatim>\<open>services/payment_service.py\<close>):
  \<^verbatim>\<open>charge(customer_id, amount, payment_method_id, description)\<close> returns a receipt or
  raises, \<^verbatim>\<open>refund(receipt_id, amount)\<close> acknowledges or raises.  The service is a
  parameter of every operation that calls it.
\<close>

record payment_service =
  charge_subscription :: "int \<Rightarrow> float \<Rightarrow> string option \<Rightarrow> string \<Rightarrow> error + string"
  refund_payment :: "string option \<Rightarrow> float \<Rightarrow> error + unit"

text \<open>
  Modelled from the spec: the notification collaborator
  (\<^verbatim>\<open>services/notification_service.py\<close>): one-way sends whose result the core does not
  consume.  A send appends the event to the log of the state and does not raise.
\<close>

datatype notification =
    PreOrderConfirmation int int
  | PreOrderCancelled int int
  | SubscriptionCancelled int int bool
  | BillingSuccess int int float
  | BillingFailed int int error

subsection \<open>The session\<close>

text \<open>
  \<open>session\<close> holds the rows as the objects of the SQLAlchemy session show them, with
  every attribute assignment made so far; queries read it.  \<open>committed\<close> holds the rows
  as of the last \<^verbatim>\<open>db.commit()\<close>.  Identifier columns are primary keys: the object a
  query returned is the row that carries its identifier, and assigning to an attribute
  of the object rewrites that row.
\<close>

record db_state =
  session :: tables
  committed :: tables
  sent :: "notification list"

definition commit :: "db_state \<Rightarrow> db_state" where
  "commit st = st\<lparr>committed := session st\<rparr>"

text \<open>
  Modelled from the spec: the store collaborator holds an \<^verbatim>\<open>Integer\<close> column as a signed
  64-bit integer, the range of the SQLite driver.  A Python \<^verbatim>\<open>int\<close> outside that range
  cannot be bound to a statement: the flush that \<^verbatim>\<open>db.commit()\<close> starts raises
  \<^verbatim>\<open>OverflowError\<close>, nothing is committed, and the session rolls the transaction back,
  so that it drops the pending row and the assignments made since the last commit.
\<close>

definition fits_integer :: "int \<Rightarrow> bool" where
  "fits_integer i \<longleftrightarrow> - (2 ^ 63) \<le> i \<and> i < 2 ^ 63"

definition rollback :: "db_state \<Rightarrow> db_state" where
  "rollback st = st\<lparr>session := committed st\<rparr>"

definition notify :: "notification \<Rightarrow> db_state \<Rightarrow> db_state" where
  "notify n st = st\<lparr>sent := sent st @ [n]\<rparr>"

definition update_subscription ::
  "int \<Rightarrow> (subscription \<Rightarrow> subscription) \<Rightarrow> db_state \<Rightarrow> db_state" where
  "update_subscription k f st =
     st\<lparr>session := (session st)\<lparr>subscriptions :=
        map (\<lambda>s. if sub_id s = k then f s else s) (subscriptions (session st))\<rparr>\<rparr>"

definition update_product ::
  "int \<Rightarrow> (product \<Rightarrow> product) \<Rightarrow> db_state \<Rightarrow> db_state" where
  "update_product k f st =
     st\<lparr>session := (session st)\<lparr>products :=
        map (\<lambda>p. if prod_id p = k then f p else p) (products (session st))\<rparr>\<rparr>"

definition update_pre_order ::
  "int \<Rightarrow> (pre_order \<Rightarrow> pre_order) \<Rightarrow> db_state \<Rightarrow> db_state" where
  "update_pre_order k f st =
     st\<lparr>session := (session st)\<lparr>pre_orders :=
        map (\<lambda>p. if po_id p = k then f p else p) (pre_orders (session st))\<rparr>\<rparr>"

text \<open>\<^verbatim>\<open>db.add(pre_order)\<close>: the table grows by one row.\<close>

definition add_pre_order :: "pre_order \<Rightarrow> db_state \<Rightarrow> db_state" where
  "add_pre_order p st =
     st\<lparr>session := (session st)\<lparr>pre_orders := pre_orders (session st) @ [p]\<rparr>\<rparr>"

text \<open>The autoincrement primary key of an inserted row: one more than the largest.\<close>

definition next_id :: "int list \<Rightarrow> int" where
  "next_id ks = foldr max ks 0 + 1"

text \<open>The relationships \<^verbatim>\<open>subscription.subscription_plan\<close>, \<^verbatim>\<open>pre_order.product\<close> and
  \<^verbatim>\<open>pre_order.subscription\<close>: the row the foreign key points to, if there is one.\<close>

definition subscription_plan_of :: "db_state \<Rightarrow> subscription \<Rightarrow> subscription_plan option" where
  "subscription_plan_of st s =
     find (\<lambda>p. plan_id p = subscription_plan_id s) (subscription_plans (session st))"

definition product_of :: "db_state \<Rightarrow> pre_order \<Rightarrow> product option" where
  "product_of st po = find (\<lambda>p. prod_id p = po_product_id po) (products (session st))"

definition subscription_of :: "db_state \<Rightarrow> pre_order \<Rightarrow> subscription option" where
  "subscription_of st po =
     find (\<lambda>s. sub_id s = po_subscription_id po) (subscriptions (session st))"

subsection \<open>The quota ledger: \<^verbatim>\<open>_validate_subscription_limits\<close>\<close>

text \<open>
  The rows both queries of the ledger filter for: the pre-orders of this subscription
  created at or after the start of the current calendar month and not cancelled.
\<close>

definition current_month_rows :: "datetime \<Rightarrow> subscription \<Rightarrow> db_state \<Rightarrow> pre_order list" where
  "current_month_rows now subscription st =
     filter (\<lambda>r. po_subscription_id r = sub_id subscription
                 \<and> month_start now \<le> po_created_at r
                 \<and> po_status r \<noteq> PreOrderStatus_CANCELLED)
            (pre_orders (session st))"

text \<open>
  Modelled from the spec: the store collaborator's sum aggregate over the filtered rows:
  \<^verbatim>\<open>NULL\<close> over no rows, otherwise the float sum accumulated in row order.
\<close>

fun sql_sum :: "float list \<Rightarrow> float option" where
  "sql_sum [] = None"
| "sql_sum (x # xs) = Some (foldl fadd x xs)"

definition current_month_orders :: "datetime \<Rightarrow> subscription \<Rightarrow> db_state \<Rightarrow> int" where
  "current_month_orders now subscription st =
     int (length (current_month_rows now subscription st))"

definition current_month_value :: "datetime \<Rightarrow> subscription \<Rightarrow> db_state \<Rightarrow> float" where
  "current_month_value now subscription st =
     or_float (sql_sum (map total_amount (current_month_rows now subscription st))) 0"

definition validate_subscription_limits ::
  "datetime \<Rightarrow> subscription \<Rightarrow> product \<Rightarrow> int \<Rightarrow> db_state \<Rightarrow> error + unit" where
  "validate_subscription_limits now subscription product qty st =
     (if 0 < monthly_preorder_limit subscription
         \<and> monthly_preorder_limit subscription \<le> current_month_orders now subscription st
      then Inl (ValueError ''Monthly pre-order limit exceeded'')
      else
        let unit_price' = or_float (pre_order_price product) (base_price product)
        in case subscription_plan_of st subscription of
             None \<Rightarrow> Inl (AttributeError ''discount_percentage'')
           | Some plan \<Rightarrow>
               let discount_applied' = fmul unit_price' (fdiv (discount_percentage plan) 100);
                   discounted_price = fsub unit_price' discount_applied'
               in if \<not> fits_float qty
                  then Inl (OverflowError ''int too large to convert to float'')
                  else
                    let order_total = fmul discounted_price (float_of_int qty)
                    in if 0 < total_preorder_value_limit subscription
                          \<and> total_preorder_value_limit subscription
                              < fadd (current_month_value now subscription st) order_total
                       then Inl (ValueError ''Monthly pre-order value limit exceeded'')
                       else Inr ())"

subsection \<open>\<^verbatim>\<open>create_pre_order\<close>\<close>

text \<open>
  \<open>now\<close> is the reading of \<^verbatim>\<open>datetime.utcnow()\<close> during the call: the window check, the
  ledger and the \<^verbatim>\<open>created_at\<close> default of the inserted row read the same clock.
\<close>

text \<open>
  The integers that the flush of \<open>create_pre_order\<close> binds from the arguments of the
  call: \<^verbatim>\<open>quantity\<close>, \<^verbatim>\<open>product_variant_id\<close> and \<^verbatim>\<open>priority_level\<close> of the inserted
  row, and the new \<^verbatim>\<open>current_pre_orders\<close> of the product.  The identifiers of the row are
  those of rows the store holds, and \<^verbatim>\<open>current_month_preorders\<close> moves by one for each
  call, so they are taken to fit.
\<close>

definition flush_fits :: "product \<Rightarrow> int \<Rightarrow> int option \<Rightarrow> int \<Rightarrow> bool" where
  "flush_fits product qty product_variant_id priority \<longleftrightarrow>
     fits_integer qty
     \<and> (case product_variant_id of None \<Rightarrow> True | Some i \<Rightarrow> fits_integer i)
     \<and> fits_integer priority
     \<and> fits_integer (current_pre_orders product + qty)"

definition create_pre_order ::
  "datetime \<Rightarrow> int \<Rightarrow> int \<Rightarrow> int \<Rightarrow> int option \<Rightarrow> int \<Rightarrow> db_state
     \<Rightarrow> (error + pre_order) \<times> db_state" where
  "create_pre_order now subscription_id product_id qty product_variant_id priority st =
     (case find (\<lambda>s. sub_id s = subscription_id \<and> sub_status s = SubscriptionStatus_ACTIVE)
                (subscriptions (session st)) of
        None \<Rightarrow> (Inl (ValueError ''Active subscription not found''), st)
      | Some subscription \<Rightarrow>
     (case find (\<lambda>p. prod_id p = product_id \<and> prod_is_active p \<and> is_pre_order_eligible p)
                (products (session st)) of
        None \<Rightarrow> (Inl (ValueError ''Product not found or not eligible for pre-order''), st)
      | Some product \<Rightarrow>
        if (case pre_order_start_date product of None \<Rightarrow> False | Some d \<Rightarrow> now < d)
        then (Inl (ValueError ''Pre-order period has not started yet''), st)
        else if (case pre_order_end_date product of None \<Rightarrow> False | Some d \<Rightarrow> d < now)
        then (Inl (ValueError ''Pre-order period has ended''), st)
        else if (case pre_order_limit product of None \<Rightarrow> False
                 | Some l \<Rightarrow> l \<noteq> 0 \<and> l < current_pre_orders product + qty)
        then (Inl (ValueError ''Pre-order quantity exceeds available limit''), st)
        else
     (case validate_subscription_limits now subscription product qty st of
        Inl e \<Rightarrow> (Inl e, st)
      | Inr _ \<Rightarrow>
     (case subscription_plan_of st subscription of
        None \<Rightarrow> (Inl (AttributeError ''discount_percentage''), st)
      | Some plan \<Rightarrow>
        let unit_price' = or_float (pre_order_price product) (base_price product);
            discount_applied' = fmul unit_price' (fdiv (discount_percentage plan) 100);
            discounted_price = fsub unit_price' discount_applied';
            total_amount' = fmul discounted_price (float_of_int qty);
            pre_order =
              \<lparr> po_id = next_id (map po_id (pre_orders (session st))),
                po_subscription_id = subscription_id,
                po_customer_id = sub_customer_id subscription,
                po_product_id = product_id,
                po_product_variant_id = product_variant_id,
                quantity = qty,
                unit_price = unit_price',
                discount_applied = fmul discount_applied' (float_of_int qty),
                total_amount = total_amount',
                po_status = PreOrderStatus_PENDING,
                po_expected_availability_date = expected_availability_date product,
                pre_order_deadline = pre_order_end_date product,
                priority_level = priority,
                payment_status = ''pending'',
                payment_intent_id = None,
                po_created_at = now \<rparr>;
            st1 = add_pre_order pre_order st;
            st2 = update_product (prod_id product)
                    (\<lambda>p. p\<lparr>current_pre_orders := current_pre_orders p + qty\<rparr>) st1;
            st3 = update_subscription (sub_id subscription)
                    (\<lambda>s. s\<lparr>current_month_preorders := current_month_preorders s + 1,
                           current_preorder_value :=
                             fadd (current_preorder_value s) total_amount'\<rparr>) st2
        in if \<not> flush_fits product qty product_variant_id priority
           then (Inl (OverflowError ''Python int too large to convert to SQLite INTEGER''),
                 rollback st3)
           else
             let st4 = commit st3
             in (Inr pre_order,
                 notify (PreOrderConfirmation (sub_customer_id subscription) (po_id pre_order))
                   st4)))))"

subsection \<open>\<^verbatim>\<open>cancel_pre_order\<close> and \<^verbatim>\<open>cancel_subscription\<close>\<close>

definition cancel_pre_order ::
  "payment_service \<Rightarrow> int \<Rightarrow> db_state \<Rightarrow> (error + unit) \<times> db_state" where
  "cancel_pre_order pay pre_order_id st =
     (case find (\<lambda>p. po_id p = pre_order_id) (pre_orders (session st)) of
        None \<Rightarrow> (Inl (ValueError ''Pre-order not found''), st)
      | Some pre_order \<Rightarrow>
        if po_status pre_order = PreOrderStatus_CANCELLED
        then (Inl (ValueError ''Pre-order already cancelled''), st)
        else if po_status pre_order = PreOrderStatus_PROCESSING
                \<or> po_status pre_order = PreOrderStatus_FULFILLED
        then (Inl (ValueError ''Cannot cancel pre-order in current status''), st)
        else
          let st1 = update_pre_order pre_order_id
                      (\<lambda>p. p\<lparr>po_status := PreOrderStatus_CANCELLED\<rparr>) st
          in
     (case product_of st1 pre_order of
        None \<Rightarrow> (Inl (AttributeError ''current_pre_orders''), st1)
      | Some product \<Rightarrow>
          let st2 = update_product (prod_id product)
                      (\<lambda>p. p\<lparr>current_pre_orders := current_pre_orders p - quantity pre_order\<rparr>)
                      st1
          in
     (case subscription_of st2 pre_order of
        None \<Rightarrow> (Inl (AttributeError ''current_month_preorders''), st2)
      | Some subscription \<Rightarrow>
          let st3 = update_subscription (sub_id subscription)
                      (\<lambda>s. s\<lparr>current_month_preorders := current_month_preorders s - 1,
                             current_preorder_value :=
                               fsub (current_preorder_value s) (total_amount pre_order)\<rparr>)
                      st2
          in
            if payment_status pre_order = ''charged''
            then
              (case refund_payment pay (payment_intent_id pre_order) (total_amount pre_order) of
                 Inl e \<Rightarrow> (Inl e, st3)
               | Inr _ \<Rightarrow>
                   let st4 = update_pre_order pre_order_id
                               (\<lambda>p. p\<lparr>payment_status := ''refunded''\<rparr>) st3
                   in (Inr (),
                       notify (PreOrderCancelled (po_customer_id pre_order) pre_order_id)
                         (commit st4)))
            else (Inr (),
                  notify (PreOrderCancelled (po_customer_id pre_order) pre_order_id)
                    (commit st3)))))"

text \<open>The loop over the pending pre-orders: an exception of a cancellation leaves it.\<close>

fun cancel_each :: "payment_service \<Rightarrow> int list \<Rightarrow> db_state \<Rightarrow> (error + unit) \<times> db_state" where
  "cancel_each pay [] st = (Inr (), st)"
| "cancel_each pay (k # ks) st =
     (case cancel_pre_order pay k st of
        (Inl e, st') \<Rightarrow> (Inl e, st')
      | (Inr _, st') \<Rightarrow> cancel_each pay ks st')"

definition cancel_subscription ::
  "payment_service \<Rightarrow> datetime \<Rightarrow> int \<Rightarrow> bool \<Rightarrow> db_state \<Rightarrow> (error + unit) \<times> db_state" where
  "cancel_subscription pay now subscription_id immediate st =
     (case find (\<lambda>s. sub_id s = subscription_id) (subscriptions (session st)) of
        None \<Rightarrow> (Inl (ValueError ''Subscription not found''), st)
      | Some subscription \<Rightarrow>
        if sub_status subscription = SubscriptionStatus_CANCELLED
        then (Inl (ValueError ''Subscription already cancelled''), st)
        else
          let st1 =
                (if immediate
                 then update_subscription subscription_id
                        (\<lambda>s. s\<lparr>sub_status := SubscriptionStatus_CANCELLED,
                               end_date := Some now\<rparr>) st
                 else update_subscription subscription_id
                        (\<lambda>s. s\<lparr>auto_renew := False,
                               sub_status := SubscriptionStatus_CANCELLED\<rparr>) st);
              pending_pre_orders =
                filter (\<lambda>p. po_subscription_id p = subscription_id
                            \<and> po_status p = PreOrderStatus_PENDING)
                       (pre_orders (session st1))
          in case cancel_each pay (map po_id pending_pre_orders) st1 of
               (Inl e, st2) \<Rightarrow> (Inl e, st2)
             | (Inr _, st2) \<Rightarrow>
                 (Inr (),
                  notify (SubscriptionCancelled (sub_customer_id subscription)
                            subscription_id immediate)
                    (commit st2)))"

subsection \<open>The billing sweep\<close>

text \<open>
  What a successful renewal assigns to the subscription: the billing date moved by the
  period, the end date set to the new billing date, both counters reset.
\<close>

definition renewed :: "string \<Rightarrow> subscription \<Rightarrow> subscription" where
  "renewed frequency s =
     (let s' =
        (if frequency = PaymentFrequency_MONTHLY
         then s\<lparr>next_billing_date := map_option (\<lambda>d. d + timedelta_days 30) (next_billing_date s),
                end_date := map_option (\<lambda>d. d + timedelta_days 30) (next_billing_date s)\<rparr>
         else if frequency = PaymentFrequency_QUARTERLY
         then s\<lparr>next_billing_date := map_option (\<lambda>d. d + timedelta_days 90) (next_billing_date s),
                end_date := map_option (\<lambda>d. d + timedelta_days 90) (next_billing_date s)\<rparr>
         else if frequency = PaymentFrequency_ANNUALLY
         then s\<lparr>next_billing_date := map_option (\<lambda>d. d + timedelta_days 365) (next_billing_date s),
                end_date := map_option (\<lambda>d. d + timedelta_days 365) (next_billing_date s)\<rparr>
         else s)
      in s'\<lparr>current_month_preorders := 0, current_preorder_value := 0\<rparr>)"

definition process_subscription_renewal ::
  "payment_service \<Rightarrow> subscription \<Rightarrow> db_state \<Rightarrow> (error + unit) \<times> db_state" where
  "process_subscription_renewal pay subscription st =
     (case subscription_plan_of st subscription of
        None \<Rightarrow> (Inl (AttributeError ''price''), st)
      | Some plan \<Rightarrow>
     (case charge_subscription pay (sub_customer_id subscription) (price plan)
             (payment_method_id subscription) (''Subscription renewal - '' @ plan_name plan) of
        Inl e \<Rightarrow> (Inl e, st)
      | Inr payment_result \<Rightarrow>
          if (billing_frequency plan = PaymentFrequency_MONTHLY
              \<or> billing_frequency plan = PaymentFrequency_QUARTERLY
              \<or> billing_frequency plan = PaymentFrequency_ANNUALLY)
             \<and> next_billing_date subscription = None
          then (Inl (TypeError ''unsupported operand type(s) for +=''), st)
          else
            let st1 = update_subscription (sub_id subscription)
                        (renewed (billing_frequency plan)) st
            in (Inr (),
                notify (BillingSuccess (sub_customer_id subscription) (sub_id subscription)
                          (price plan))
                  (commit st1))))"

text \<open>
  The \<^verbatim>\<open>for\<close> loop of \<^verbatim>\<open>process_billing_cycle\<close>: the \<^verbatim>\<open>except Exception\<close> clause
  reports the failure and the loop goes on with the next subscription.
\<close>

fun renew_each :: "payment_service \<Rightarrow> subscription list \<Rightarrow> db_state \<Rightarrow> db_state" where
  "renew_each pay [] st = st"
| "renew_each pay (subscription # rest) st =
     (case process_subscription_renewal pay subscription st of
        (Inl e, st') \<Rightarrow>
          renew_each pay rest
            (notify (BillingFailed (sub_customer_id subscription) (sub_id subscription) e) st')
      | (Inr _, st') \<Rightarrow> renew_each pay rest st')"

definition is_due :: "datetime \<Rightarrow> subscription \<Rightarrow> bool" where
  "is_due now s =
     (sub_status s = SubscriptionStatus_ACTIVE \<and> auto_renew s
      \<and> (case next_billing_date s of None \<Rightarrow> False | Some d \<Rightarrow> date_of d \<le> date_of now))"

definition due_subscriptions :: "datetime \<Rightarrow> db_state \<Rightarrow> subscription list" where
  "due_subscriptions now st = filter (is_due now) (subscriptions (session st))"

definition process_billing_cycle :: "payment_service \<Rightarrow> datetime \<Rightarrow> db_state \<Rightarrow> db_state" where
  "process_billing_cycle pay now st = renew_each pay (due_subscriptions now st) st"

subsection \<open>Vocabulary of the properties\<close>

text \<open>
  The subscription and the product that \<open>create_pre_order\<close> hands to the ledger: the
  two lookups of lines 111-127 succeed and the window and capacity checks of lines
  130-139 pass.  It is \<open>None\<close> exactly when the call is rejected before the ledger.
\<close>


definition ledger_inputs ::
  "datetime \<Rightarrow> int \<Rightarrow> int \<Rightarrow> int \<Rightarrow> db_state \<Rightarrow> (subscription \<times> product) option" where
  "ledger_inputs now subscription_id product_id qty st =
     (case find (\<lambda>s. sub_id s = subscription_id \<and> sub_status s = SubscriptionStatus_ACTIVE)
                (subscriptions (session st)) of
        None \<Rightarrow> None
      | Some subscription \<Rightarrow>
     (case find (\<lambda>p. prod_id p = product_id \<and> prod_is_active p \<and> is_pre_order_eligible p)
                (products (session st)) of
        None \<Rightarrow> None
      | Some product \<Rightarrow>
        if (case pre_order_start_date product of None \<Rightarrow> False | Some d \<Rightarrow> now < d)
        then None
        else if (case pre_order_end_date product of None \<Rightarrow> False | Some d \<Rightarrow> d < now)
        then None
        else if (case pre_order_limit product of None \<Rightarrow> False
                 | Some l \<Rightarrow> l \<noteq> 0 \<and> l < current_pre_orders product + qty)
        then None
        else Some (subscription, product)))"

text \<open>
  Two rows of \<open>subscriptions\<close> that differ at most in the two counter columns, and two
  states whose sessions hold the same plans, products and pre-orders and, row by row,
  subscriptions that differ at most in the counters.
\<close>

definition same_but_counters :: "subscription \<Rightarrow> subscription \<Rightarrow> bool" where
  "same_but_counters s s' =
     (s' = s\<lparr>current_month_preorders := current_month_preorders s',
             current_preorder_value := current_preorder_value s'\<rparr>)"

definition agree_up_to_counters :: "db_state \<Rightarrow> db_state \<Rightarrow> bool" where
  "agree_up_to_counters st st' =
     (list_all2 same_but_counters (subscriptions (session st)) (subscriptions (session st'))
      \<and> subscription_plans (session st') = subscription_plans (session st)
      \<and> products (session st') = products (session st)
      \<and> pre_orders (session st') = pre_orders (session st))"

text \<open>
  The row of a subscription after a successful renewal: \<open>renewed\<close> with the billing
  frequency of its plan.
\<close>

definition renewal_of :: "db_state \<Rightarrow> subscription \<Rightarrow> subscription" where
  "renewal_of st s =
     (case subscription_plan_of st s of
        None \<Rightarrow> s
      | Some plan \<Rightarrow> renewed (billing_frequency plan) s)"

text \<open>
  The invariant on the counters, the four core operations as a datatype, and the run of
  a sequence of them; the result of an operation is dropped, its state is kept.
\<close>

definition counters_nonneg :: "tables \<Rightarrow> bool" where
  "counters_nonneg t =
     list_all (\<lambda>s. 0 \<le> current_month_preorders s \<and> 0 \<le> current_preorder_value s)
       (subscriptions t)"

datatype operation =
    CreatePreOrder datetime int int int "int option" int
  | CancelPreOrder int
  | CancelSubscription datetime int bool
  | BillingCycle datetime

fun apply_operation :: "payment_service \<Rightarrow> operation \<Rightarrow> db_state \<Rightarrow> db_state" where
  "apply_operation pay (CreatePreOrder now sid pid qty variant priority) st =
     snd (create_pre_order now sid pid qty variant priority st)"
| "apply_operation pay (CancelPreOrder k) st = snd (cancel_pre_order pay k st)"
| "apply_operation pay (CancelSubscription now sid immediate) st =
     snd (cancel_subscription pay now sid immediate st)"
| "apply_operation pay (BillingCycle now) st = process_billing_cycle pay now st"

fun run :: "payment_service \<Rightarrow> operation list \<Rightarrow> db_state \<Rightarrow> db_state" where
  "run pay [] st = st"
| "run pay (x # xs) st = run pay xs (apply_operation pay x st)"

text \<open>
  A cancellation is covered when the counters of the subscription still include the
  pre-order: the pre-order found under the identifier is one that \<open>cancel_pre_order\<close>
  rejects, or every subscription row it points to has \<open>current_month_preorders\<close> of at
  least one and \<open>current_preorder_value\<close> of at least its total.  The cascade of
  \<open>cancel_subscription\<close> is covered when each of its cancellations is, in the state in
  which it runs; \<open>cascade_start\<close> is the list of pre-orders the cascade goes through and
  the state it starts in, \<open>None\<close> when \<open>cancel_subscription\<close> raises before.
\<close>

definition covered :: "int \<Rightarrow> db_state \<Rightarrow> bool" where
  "covered k st =
     (case find (\<lambda>p. po_id p = k) (pre_orders (session st)) of
        None \<Rightarrow> True
      | Some po \<Rightarrow>
          po_status po = PreOrderStatus_CANCELLED
          \<or> po_status po = PreOrderStatus_PROCESSING
          \<or> po_status po = PreOrderStatus_FULFILLED
          \<or> list_all (\<lambda>s. sub_id s \<noteq> po_subscription_id po
                           \<or> (1 \<le> current_month_preorders s
                              \<and> total_amount po \<le> current_preorder_value s))
                (subscriptions (session st)))"

fun cascade_covered :: "payment_service \<Rightarrow> int list \<Rightarrow> db_state \<Rightarrow> bool" where
  "cascade_covered pay [] st = True"
| "cascade_covered pay (k # ks) st =
     (covered k st
      \<and> (case cancel_pre_order pay k st of
            (Inl e, st') \<Rightarrow> True
          | (Inr _, st') \<Rightarrow> cascade_covered pay ks st'))"

definition cascade_start ::
  "datetime \<Rightarrow> int \<Rightarrow> bool \<Rightarrow> db_state \<Rightarrow> (int list \<times> db_state) option" where
  "cascade_start now subscription_id immediate st =
     (case find (\<lambda>s. sub_id s = subscription_id) (subscriptions (session st)) of
        None \<Rightarrow> None
      | Some subscription \<Rightarrow>
        if sub_status subscription = SubscriptionStatus_CANCELLED then None
        else
          let st1 =
                (if immediate
                 then update_subscription subscription_id
                        (\<lambda>s. s\<lparr>sub_status := SubscriptionStatus_CANCELLED,
                               end_date := Some now\<rparr>) st
                 else update_subscription subscription_id
                        (\<lambda>s. s\<lparr>auto_renew := False,
                               sub_status := SubscriptionStatus_CANCELLED\<rparr>) st)
          in Some (map po_id
                     (filter (\<lambda>p. po_subscription_id p = subscription_id
                                  \<and> po_status p = PreOrderStatus_PENDING)
                        (pre_orders (session st1))),
                   st1))"

text \<open>
  The condition under which an operation keeps the counters non-negative: a created
  pre-order has a non-negative total, and every cancellation is covered.  A sequence
  is guarded when each operation meets its condition in the state it runs in.
\<close>

fun guard :: "payment_service \<Rightarrow> operation \<Rightarrow> db_state \<Rightarrow> bool" where
  "guard pay (CreatePreOrder now sid pid qty variant priority) st =
     (case fst (create_pre_order now sid pid qty variant priority st) of
        Inl e \<Rightarrow> True
      | Inr po \<Rightarrow> 0 \<le> total_amount po)"
| "guard pay (CancelPreOrder k) st = covered k st"
| "guard pay (CancelSubscription now sid immediate) st =
     (case cascade_start now sid immediate st of
        None \<Rightarrow> True
      | Some (ks, st1) \<Rightarrow> cascade_covered pay ks st1)"
| "guard pay (BillingCycle now) st = True"

fun guarded :: "payment_service \<Rightarrow> operation list \<Rightarrow> db_state \<Rightarrow> bool" where
  "guarded pay [] st = True"
| "guarded pay (x # xs) st = (guard pay x st \<and> guarded pay xs (apply_operation pay x st))"

subsection \<open>Example data\<close>

text \<open>
  A monthly plan, two subscriptions of it, one product and one pending pre-order, at
  noon of 2024-03-15; and payment services that accept everything, decline everything,
  or decline customer 7 only.
\<close>

definition ex_now :: datetime where
  "ex_now = 63846100800000000"

definition ex_plan :: subscription_plan where
  "ex_plan =
     \<lparr> plan_id = 1, plan_name = ''Basic'', price = 30,
       billing_frequency = PaymentFrequency_MONTHLY, preorder_limit_per_month = 2,
       preorder_value_limit = 100, discount_percentage = 0, plan_is_active = True \<rparr>"

definition ex_sub :: subscription where
  "ex_sub =
     \<lparr> sub_id = 1, sub_customer_id = 7, subscription_plan_id = 1,
       sub_status = SubscriptionStatus_ACTIVE,
       end_date = Some 63846057600000000, next_billing_date = Some 63846057600000000,
       monthly_preorder_limit = 2, current_month_preorders = 0,
       total_preorder_value_limit = 100, current_preorder_value = 0,
       payment_method_id = Some ''pm_7'', auto_renew = True \<rparr>"

definition ex_sub2 :: subscription where
  "ex_sub2 =
     \<lparr> sub_id = 2, sub_customer_id = 8, subscription_plan_id = 1,
       sub_status = SubscriptionStatus_ACTIVE,
       end_date = Some 63845625600000000, next_billing_date = Some 63845625600000000,
       monthly_preorder_limit = 2, current_month_preorders = 3,
       total_preorder_value_limit = 100, current_preorder_value = 45,
       payment_method_id = Some ''pm_8'', auto_renew = True \<rparr>"

definition ex_product :: product where
  "ex_product =
     \<lparr> prod_id = 1, is_pre_order_eligible = True, pre_order_start_date = None,
       pre_order_end_date = None, expected_availability_date = None,
       pre_order_limit = None, current_pre_orders = 0, base_price = 60,
       pre_order_price = None, prod_is_active = True \<rparr>"

definition ex_order :: pre_order where
  "ex_order =
     \<lparr> po_id = 1, po_subscription_id = 1, po_customer_id = 7, po_product_id = 1,
       po_product_variant_id = None, quantity = 1, unit_price = 60, discount_applied = 0,
       total_amount = 60, po_status = PreOrderStatus_PENDING,
       po_expected_availability_date = None, pre_order_deadline = None,
       priority_level = 1, payment_status = ''pending'', payment_intent_id = None,
       po_created_at = 63846100800000000 \<rparr>"

definition ex_tables :: "subscription list \<Rightarrow> product list \<Rightarrow> pre_order list \<Rightarrow> tables" where
  "ex_tables ss ps os =
     \<lparr> subscriptions = ss, subscription_plans = [ex_plan], products = ps, pre_orders = os \<rparr>"

definition ex_state :: "subscription list \<Rightarrow> product list \<Rightarrow> pre_order list \<Rightarrow> db_state" where
  "ex_state ss ps os =
     \<lparr> session = ex_tables ss ps os, committed = ex_tables ss ps os, sent = [] \<rparr>"

definition pay_ok :: payment_service where
  "pay_ok =
     \<lparr> charge_subscription = (\<lambda>c a m d. Inr ''receipt''),
       refund_payment = (\<lambda>i a. Inr ()) \<rparr>"

definition pay_declined :: payment_service where
  "pay_declined =
     \<lparr> charge_subscription = (\<lambda>c a m d. Inl (PaymentFailed ''declined'')),
       refund_payment = (\<lambda>i a. Inl (RefundFailed ''declined'')) \<rparr>"

definition pay_declined_7 :: payment_service where
  "pay_declined_7 =
     \<lparr> charge_subscription =
         (\<lambda>c a m d. if c = 7 then Inl (PaymentFailed ''declined'') else Inr ''receipt''),
       refund_payment = (\<lambda>i a. Inr ()) \<rparr>"

text \<open>
  The subscription and the product after the pending pre-order was created, and the
  pre-order once it is confirmed and charged.
\<close>

definition ex_sub_used :: subscription where
  "ex_sub_used = ex_sub\<lparr>current_month_preorders := 1, current_preorder_value := 60\<rparr>"

definition ex_product_used :: product where
  "ex_product_used = ex_product\<lparr>current_pre_orders := 1\<rparr>"

definition ex_charged :: pre_order where
  "ex_charged =
     ex_order\<lparr>po_status := PreOrderStatus_CONFIRMED, payment_status := ''charged'',
              payment_intent_id := Some ''pi_1''\<rparr>"

text \<open>The floats that Python writes \<^verbatim>\<open>0.1\<close> and \<^verbatim>\<open>0.2\<close>.\<close>

definition ex_tenth :: float where
  "ex_tenth = rnd (1 / 10)"

definition ex_fifth :: float where
  "ex_fifth = rnd (2 / 10)"

text \<open>
  The pre-orders of March 2024 for the value quota of subscription 1: one of another
  subscription, one that counts, one cancelled, one created in the last microsecond of
  February, and one created at the first instant of March.  The totals that count are
  \<open>60\<close> and \<open>30\<close>.
\<close>

definition ex_march_orders :: "pre_order list" where
  "ex_march_orders =
     [ex_order\<lparr>po_id := 2, po_subscription_id := 2, po_customer_id := 8\<rparr>,
      ex_order,
      ex_order\<lparr>po_id := 3, po_status := PreOrderStatus_CANCELLED\<rparr>,
      ex_order\<lparr>po_id := 4, po_created_at := 63844847999999999\<rparr>,
      ex_order\<lparr>po_id := 5, unit_price := 30, total_amount := 30,
               po_created_at := 63844848000000000\<rparr>]"

definition ex_quota_state :: "float \<Rightarrow> db_state" where
  "ex_quota_state l =
     ex_state [ex_sub\<lparr>monthly_preorder_limit := 5, current_month_preorders := 2,
                      total_preorder_value_limit := l, current_preorder_value := 90\<rparr>,
               ex_sub2]
       [ex_product\<lparr>current_pre_orders := 4\<rparr>] ex_march_orders"

text \<open>
  A subscription with a value limit of \<open>2^63\<close> and no pre-order, and a product at \<open>1.0\<close>.
\<close>

definition ex_limit_state :: db_state where
  "ex_limit_state =
     ex_state [ex_sub\<lparr>total_preorder_value_limit := 9223372036854775808\<rparr>]
       [ex_product\<lparr>base_price := 1\<rparr>] []"

section \<open>Properties\<close>

subsection \<open>Rounding\<close>

text \<open>
  \<open>normalise_unfold\<close> evaluates the rounding of a concrete number step by step.  The
  lemmas after it: rounding keeps zero and the sign, and every integer below \<open>2^53\<close> in
  magnitude is a float, so that arithmetic on such integers is exact.
\<close>


lemma normalise_unfold:
  "normalise n m s =
     (if n = 0 then (m, s)
      else if 2 ^ 53 \<le> m then normalise (n - 1) (m / 2) (s * 2)
      else if m < 2 ^ 52 then normalise (n - 1) (m * 2) (s / 2)
      else (m, s))"
  by (cases n) simp_all

lemma normalise_zero: "normalise n 0 s = (0, s / 2 ^ n)"
  by (induction n arbitrary: s) simp_all

lemma rnd_zero: "rnd 0 = 0"
  by (simp add: rnd_def rnd_pos_def normalise_zero round_half_even_def)

lemma round_half_even_of_int: "round_half_even (of_int k) = k"
  by (simp add: round_half_even_def)

lemma round_half_even_nonneg: "0 \<le> m \<Longrightarrow> 0 \<le> round_half_even m"
  by (auto simp: round_half_even_def Let_def)

lemma normalise_sign:
  "0 \<le> m \<Longrightarrow> 0 < s \<Longrightarrow> normalise n m s = (m', s') \<Longrightarrow> 0 \<le> m' \<and> 0 < s'"
proof (induction n arbitrary: m s)
  case 0
  then show ?case by simp
next
  case (Suc n)
  show ?case
  proof (cases "2 ^ 53 \<le> m")
    case True
    with Suc.prems have "normalise n (m / 2) (s * 2) = (m', s')" by simp
    moreover have "0 \<le> m / 2" "0 < s * 2" using Suc.prems by simp_all
    ultimately show ?thesis using Suc.IH by blast
  next
    case False
    show ?thesis
    proof (cases "m < 2 ^ 52")
      case True
      with False Suc.prems have "normalise n (m * 2) (s / 2) = (m', s')" by simp
      moreover have "0 \<le> m * 2" "0 < s / 2" using Suc.prems by simp_all
      ultimately show ?thesis using Suc.IH by blast
    next
      case notlt: False
      with False Suc.prems show ?thesis by simp
    qed
  qed
qed

lemma rnd_pos_nonneg: "0 \<le> x \<Longrightarrow> 0 \<le> rnd_pos x"
proof -
  assume x: "0 \<le> x"
  obtain m s where ms: "normalise 1074 x 1 = (m, s)" by (cases "normalise 1074 x 1")
  from normalise_sign [OF x _ ms] have "0 \<le> m" "0 < s" by simp_all
  then show ?thesis
    by (simp add: rnd_pos_def ms round_half_even_nonneg)
qed

lemma rnd_nonneg: "0 \<le> x \<Longrightarrow> 0 \<le> rnd x"
  by (simp add: rnd_def rnd_pos_nonneg)

lemma normalise_integral:
  "m \<in> \<int> \<Longrightarrow> 0 < m \<Longrightarrow> m < 2 ^ 53 \<Longrightarrow> 2 ^ 52 \<le> m * 2 ^ n \<Longrightarrow>
     \<exists>m' s'. normalise n m s = (m', s') \<and> m' \<in> \<int> \<and> m' * s' = m * s"
proof (induction n arbitrary: m s)
  case 0
  then show ?case by simp
next
  case (Suc n)
  show ?case
  proof (cases "m < 2 ^ 52")
    case True
    have "m * 2 \<in> \<int>" using Suc.prems(1) by simp
    moreover have "0 < m * 2" using Suc.prems(2) by simp
    moreover have "m * 2 < 2 ^ 53" using True by simp
    moreover have "2 ^ 52 \<le> m * 2 * 2 ^ n" using Suc.prems(4) by (simp add: mult.assoc)
    ultimately obtain m' s' where
      "normalise n (m * 2) (s / 2) = (m', s')" "m' \<in> \<int>" "m' * s' = m * 2 * (s / 2)"
      using Suc.IH by blast
    then show ?thesis using True Suc.prems(3) by simp
  next
    case False
    then show ?thesis using Suc.prems by simp
  qed
qed

lemma rnd_pos_of_int:
  assumes "0 < k" "k < 2 ^ 53"
  shows "rnd_pos (of_int k) = of_int k"
proof -
  have "(of_int k :: real) \<in> \<int>" by simp
  moreover have "0 < (of_int k :: real)" using assms by simp
  moreover have "(of_int k :: real) < 2 ^ 53"
  proof -
    have "(of_int k :: real) < of_int (2 ^ 53)" using assms(2) by (simp only: of_int_less_iff)
    then show ?thesis by simp
  qed
  moreover have "(2::real) ^ 52 \<le> of_int k * 2 ^ 1074"
  proof -
    have "(1::real) \<le> of_int k" using assms(1) by simp
    then have "(1::real) * 2 ^ 1074 \<le> of_int k * 2 ^ 1074"
      by (rule mult_right_mono) simp
    moreover have "(2::real) ^ 52 \<le> 2 ^ 1074" by (rule power_increasing) simp_all
    ultimately show ?thesis by simp
  qed
  ultimately obtain m' s' where
    "normalise 1074 (of_int k) 1 = (m', s')" "m' \<in> \<int>" "m' * s' = of_int k * 1"
    using normalise_integral by blast
  then show ?thesis
    by (auto simp: rnd_pos_def Ints_def round_half_even_of_int)
qed

lemma rnd_of_int: "\<bar>k\<bar> < 2 ^ 53 \<Longrightarrow> rnd (of_int k) = of_int k"
proof -
  assume k: "\<bar>k\<bar> < 2 ^ 53"
  consider "k = 0" | "0 < k" | "k < 0" by linarith
  then show ?thesis
  proof cases
    case 1
    then show ?thesis by (simp add: rnd_zero)
  next
    case 2
    then show ?thesis using k by (simp add: rnd_def rnd_pos_of_int)
  next
    case 3
    then have "0 < - k" "- k < 2 ^ 53" using k by simp_all
    then have "rnd_pos (of_int (- k)) = of_int (- k)" by (rule rnd_pos_of_int)
    then show ?thesis using 3 by (simp add: rnd_def)
  qed
qed

lemma rnd_numeral: "numeral w < (2::int) ^ 53 \<Longrightarrow> rnd (numeral w) = numeral w"
  using rnd_of_int [of "numeral w"] by simp

lemma rnd_one: "rnd 1 = 1"
  using rnd_of_int [of 1] by simp

lemma rnd_tenth: "rnd (1 / 10) = 3602879701896397 / 36028797018963968"
  by (simp add: rnd_def rnd_pos_def normalise_unfold round_half_even_def)

lemma rnd_fifth: "rnd (2 / 10) = 3602879701896397 / 18014398509481984"
  by (simp add: rnd_def rnd_pos_def normalise_unfold round_half_even_def)

lemma tenth_plus_fifth: "fadd (rnd (1 / 10)) (rnd (2 / 10)) = 1351079888211149 / 4503599627370496"
  by (simp add: fadd_def rnd_tenth rnd_fifth) (simp add: rnd_def rnd_pos_def normalise_unfold round_half_even_def)


lemmas ex_defs = ex_now_def ex_plan_def ex_sub_def ex_sub2_def ex_product_def ex_order_def
  ex_tables_def ex_state_def pay_ok_def pay_declined_def pay_declined_7_def
  ex_sub_used_def ex_product_used_def ex_charged_def

text \<open>The definitions that evaluate a call on concrete rows.\<close>

lemmas run_defs = create_pre_order_def validate_subscription_limits_def flush_fits_def
  fits_integer_def fits_float_def rollback_def
  current_month_orders_def current_month_value_def current_month_rows_def
  subscription_plan_of_def product_of_def subscription_of_def
  update_subscription_def update_product_def update_pre_order_def add_pre_order_def
  commit_def notify_def next_id_def or_float_def
  fadd_def fsub_def fmul_def fdiv_def float_of_int_def rnd_zero rnd_one rnd_numeral

subsection \<open>Cancellation of a pre-order that is under way, done or already cancelled\<close>

text \<open>
  C8.  When the pre-order found under the identifier has status \<open>processing\<close> or
  \<open>fulfilled\<close>, \<open>cancel_pre_order\<close> raises the invalid-state error ``Cannot cancel
  pre-order in current status''; when it is already \<open>cancelled\<close>, the invalid-state error
  ``Pre-order already cancelled''.  In both cases the state after the call is the state
  before it: the status and payment status of the pre-order, the counter of the product
  and both counters of the subscription are untouched, nothing is committed and nothing
  is sent.
\<close>

theorem cancel_pre_order_invalid_state:
  assumes "find (\<lambda>p. po_id p = k) (pre_orders (session st)) = Some po"
    and "po_status po = PreOrderStatus_PROCESSING \<or> po_status po = PreOrderStatus_FULFILLED
           \<or> po_status po = PreOrderStatus_CANCELLED"
  shows "cancel_pre_order pay k st =
           (Inl (if po_status po = PreOrderStatus_CANCELLED
                 then InvalidState_already_cancelled else InvalidState_not_cancellable), st)"
  using assms by (auto simp: cancel_pre_order_def)

theorem cancel_pre_order_invalid_state_witness:
  "cancel_pre_order pay_ok 1
     (ex_state [ex_sub\<lparr>current_month_preorders := 1, current_preorder_value := 60\<rparr>]
        [ex_product\<lparr>current_pre_orders := 1\<rparr>]
        [ex_order\<lparr>po_status := PreOrderStatus_PROCESSING\<rparr>])
   = (Inl InvalidState_not_cancellable,
      ex_state [ex_sub\<lparr>current_month_preorders := 1, current_preorder_value := 60\<rparr>]
        [ex_product\<lparr>current_pre_orders := 1\<rparr>]
        [ex_order\<lparr>po_status := PreOrderStatus_PROCESSING\<rparr>])"
  using cancel_pre_order_invalid_state
    [of 1 "ex_state [ex_sub\<lparr>current_month_preorders := 1, current_preorder_value := 60\<rparr>]
        [ex_product\<lparr>current_pre_orders := 1\<rparr>]
        [ex_order\<lparr>po_status := PreOrderStatus_PROCESSING\<rparr>]"
        "ex_order\<lparr>po_status := PreOrderStatus_PROCESSING\<rparr>" pay_ok]
  by (simp add: ex_defs)

subsection \<open>The count quota\<close>

lemma ledger_inputsD:
  assumes "ledger_inputs now sid pid q st = Some (sub, prd)"
  shows "find (\<lambda>s. sub_id s = sid \<and> sub_status s = SubscriptionStatus_ACTIVE)
           (subscriptions (session st)) = Some sub"
    and "find (\<lambda>p. prod_id p = pid \<and> prod_is_active p \<and> is_pre_order_eligible p)
           (products (session st)) = Some prd"
    and "\<not> (case pre_order_start_date prd of None \<Rightarrow> False | Some d \<Rightarrow> now < d)"
    and "\<not> (case pre_order_end_date prd of None \<Rightarrow> False | Some d \<Rightarrow> d < now)"
    and "\<not> (case pre_order_limit prd of None \<Rightarrow> False
            | Some l \<Rightarrow> l \<noteq> 0 \<and> l < current_pre_orders prd + q)"
proof -
  obtain s where s: "find (\<lambda>s. sub_id s = sid \<and> sub_status s = SubscriptionStatus_ACTIVE)
           (subscriptions (session st)) = Some s"
    using assms by (cases "find (\<lambda>s. sub_id s = sid \<and> sub_status s = SubscriptionStatus_ACTIVE)
           (subscriptions (session st))") (simp_all add: ledger_inputs_def)
  obtain p where p: "find (\<lambda>p. prod_id p = pid \<and> prod_is_active p \<and> is_pre_order_eligible p)
           (products (session st)) = Some p"
    using assms s by (cases "find (\<lambda>p. prod_id p = pid \<and> prod_is_active p \<and> is_pre_order_eligible p)
           (products (session st))") (simp_all add: ledger_inputs_def)
  have *: "(if (case pre_order_start_date p of None \<Rightarrow> False | Some d \<Rightarrow> now < d) then None
        else if (case pre_order_end_date p of None \<Rightarrow> False | Some d \<Rightarrow> d < now) then None
        else if (case pre_order_limit p of None \<Rightarrow> False
                 | Some l \<Rightarrow> l \<noteq> 0 \<and> l < current_pre_orders p + q) then None
        else Some (s, p)) = Some (sub, prd)"
    using assms s p by (simp add: ledger_inputs_def)
  then have eq: "s = sub" "p = prd" by (simp_all split: if_split_asm)
  show "find (\<lambda>s. sub_id s = sid \<and> sub_status s = SubscriptionStatus_ACTIVE)
           (subscriptions (session st)) = Some sub" using s eq by simp
  show "find (\<lambda>p. prod_id p = pid \<and> prod_is_active p \<and> is_pre_order_eligible p)
           (products (session st)) = Some prd" using p eq by simp
  show "\<not> (case pre_order_start_date prd of None \<Rightarrow> False | Some d \<Rightarrow> now < d)"
    using * eq by (auto split: if_split_asm)
  show "\<not> (case pre_order_end_date prd of None \<Rightarrow> False | Some d \<Rightarrow> d < now)"
    using * eq by (auto split: if_split_asm)
  show "\<not> (case pre_order_limit prd of None \<Rightarrow> False
            | Some l \<Rightarrow> l \<noteq> 0 \<and> l < current_pre_orders prd + q)"
    using * eq by (auto split: if_split_asm)
qed

lemma create_pre_order_rejected:
  assumes "ledger_inputs now sid pid q st = Some (sub, prd)"
    and "validate_subscription_limits now sub prd q st = Inl e"
  shows "create_pre_order now sid pid q v pr st = (Inl e, st)"
  using ledger_inputsD [OF assms(1)] assms(2) by (simp add: create_pre_order_def)

text \<open>
  C1.  A call of \<open>create_pre_order\<close> that reaches the ledger for a subscription whose
  \<open>monthly_preorder_limit\<close> is positive, made when the number of its pre-orders created
  since the start of the calendar month and not cancelled is at least the limit, raises
  ``Monthly pre-order limit exceeded'' (the count kind of quota error), and the state
  after the call is the state before it: the product counter, both subscription
  counters, the pre-order table, the committed rows and the notifications.
\<close>

theorem create_pre_order_count_quota:
  assumes "ledger_inputs now sid pid q st = Some (sub, prd)"
    and "0 < monthly_preorder_limit sub"
    and "monthly_preorder_limit sub \<le> current_month_orders now sub st"
  shows "create_pre_order now sid pid q v pr st = (Inl QuotaExceeded_count, st)"
proof -
  have "validate_subscription_limits now sub prd q st = Inl QuotaExceeded_count"
    using assms(2,3) by (simp add: validate_subscription_limits_def)
  with assms(1) show ?thesis by (rule create_pre_order_rejected)
qed

lemma ex_month_start: "month_start ex_now = 63844848000000000"
  by (simp add: month_start_def ex_now_def date_of_def usec_per_day_def day_of_month_def
      DAYS_BEFORE_MONTH_def DAYS_IN_MONTH_def Let_def)

theorem create_pre_order_count_quota_witness:
  "create_pre_order ex_now 1 1 1 None 1
     (ex_state [ex_sub\<lparr>monthly_preorder_limit := 1, current_month_preorders := 1,
                       current_preorder_value := 60\<rparr>]
        [ex_product\<lparr>current_pre_orders := 1\<rparr>] [ex_order])
   = (Inl QuotaExceeded_count,
      ex_state [ex_sub\<lparr>monthly_preorder_limit := 1, current_month_preorders := 1,
                       current_preorder_value := 60\<rparr>]
        [ex_product\<lparr>current_pre_orders := 1\<rparr>] [ex_order])"
  using create_pre_order_count_quota
    [of ex_now 1 1 1
        "ex_state [ex_sub\<lparr>monthly_preorder_limit := 1, current_month_preorders := 1,
                       current_preorder_value := 60\<rparr>]
           [ex_product\<lparr>current_pre_orders := 1\<rparr>] [ex_order]"
        "ex_sub\<lparr>monthly_preorder_limit := 1, current_month_preorders := 1,
                       current_preorder_value := 60\<rparr>"
        "ex_product\<lparr>current_pre_orders := 1\<rparr>" None 1]
  by (simp add: ledger_inputs_def current_month_orders_def current_month_rows_def
      ex_month_start ex_plan_def ex_sub_def ex_sub2_def ex_product_def ex_order_def
      ex_tables_def ex_state_def)

subsection \<open>The value quota\<close>

lemma create_pre_order_accepted:
  assumes "ledger_inputs now sid pid q st = Some (sub, prd)"
    and "validate_subscription_limits now sub prd q st = Inr u"
    and "subscription_plan_of st sub = Some plan"
    and "flush_fits prd q v pr"
  shows "\<exists>po st'. create_pre_order now sid pid q v pr st = (Inr po, st')"
  using ledger_inputsD [OF assms(1)] assms(2-4) by (simp add: create_pre_order_def Let_def)

lemma create_pre_order_overflow:
  assumes "ledger_inputs now sid pid q st = Some (sub, prd)"
    and "validate_subscription_limits now sub prd q st = Inr u"
    and "subscription_plan_of st sub = Some plan"
    and "\<not> flush_fits prd q v pr"
  shows "create_pre_order now sid pid q v pr st
           = (Inl OverflowError_store, st\<lparr>session := committed st\<rparr>)"
  using ledger_inputsD [OF assms(1)] assms(2-4)
  by (simp add: create_pre_order_def Let_def rollback_def update_subscription_def
      update_product_def add_pre_order_def)

lemma fits_integer_float: "fits_integer i \<Longrightarrow> fits_float i"
  unfolding fits_integer_def fits_float_def by simp linarith

text \<open>
  C2 (amended).  For a call of \<open>create_pre_order\<close> that reaches the value check (it
  reaches the ledger, the count check passes and the plan of the subscription is there),
  let \<open>month_sum\<close> be the float sum of the \<open>total_amount\<close> of the stored pre-orders of this
  subscription that were created at or after the start of the current calendar month
  and are not cancelled (zero if there is none), and
  \<open>order_total = (unit_price - unit_price * (discount_percentage / 100)) * quantity\<close> in
  float arithmetic.  A quantity of magnitude \<open>2^1024 - 2^970\<close> or more does not convert to
  a float and the call raises \<open>OverflowError\<close> before the value is checked.  For every
  other quantity the call raises ``Monthly pre-order value limit exceeded'' exactly when
  \<open>total_preorder_value_limit\<close> is positive and \<open>month_sum + order_total\<close> is strictly
  greater than it: a cumulative value equal to the limit passes, and with a limit of
  zero the value is never checked.  An order that passes is admitted, the call
  returning the pre-order, exactly when \<open>quantity\<close>, \<open>product_variant_id\<close>,
  \<open>priority_level\<close> and the new \<open>current_pre_orders\<close> of the product fit a signed 64-bit
  integer column; otherwise the commit raises \<open>OverflowError\<close>.  Whenever the call
  raises, the committed rows and the notifications are those from before the call.
\<close>

theorem create_pre_order_value_quota:
  assumes "ledger_inputs now sid pid q st = Some (sub, prd)"
    and "rows = filter (\<lambda>r. po_subscription_id r = sub_id sub
                            \<and> month_start now \<le> po_created_at r
                            \<and> po_status r \<noteq> PreOrderStatus_CANCELLED)
                  (pre_orders (session st))"
    and "\<not> (0 < monthly_preorder_limit sub
            \<and> monthly_preorder_limit sub \<le> int (length rows))"
    and "subscription_plan_of st sub = Some plan"
    and "month_sum = (case map total_amount rows of [] \<Rightarrow> 0 | x # xs \<Rightarrow> foldl fadd x xs)"
    and "unit = or_float (pre_order_price prd) (base_price prd)"
    and "order_total =
           fmul (fsub unit (fmul unit (fdiv (discount_percentage plan) 100))) (float_of_int q)"
    and "over = (0 < total_preorder_value_limit sub
                 \<and> total_preorder_value_limit sub < fadd month_sum order_total)"
    and "converts = (\<bar>q\<bar> < 2 ^ 1024 - 2 ^ 970)"
    and "storable = (\<forall>i \<in> {q, pr, current_pre_orders prd + q} \<union> set_option v.
                       - (2 ^ 63) \<le> i \<and> i < 2 ^ 63)"
    and "R = create_pre_order now sid pid q v pr st"
  shows "((fst R = Inl QuotaExceeded_value) = (converts \<and> over))
       \<and> ((\<exists>po. fst R = Inr po) = (\<not> over \<and> storable))
       \<and> ((fst R = Inl OverflowError_float) = (\<not> converts))
       \<and> ((fst R = Inl OverflowError_store) = (converts \<and> \<not> over \<and> \<not> storable))
       \<and> (\<forall>e. fst R = Inl e \<longrightarrow> committed (snd R) = committed st \<and> sent (snd R) = sent st)"
proof -
  note li = assms(1)
  have cr: "current_month_rows now sub st = rows"
    by (simp add: current_month_rows_def assms(2))
  have co: "current_month_orders now sub st = int (length rows)"
    by (simp add: current_month_orders_def cr)
  have cv: "current_month_value now sub st = month_sum"
  proof (cases "map total_amount rows")
    case Nil
    then show ?thesis by (simp add: current_month_value_def cr assms(5) or_float_def)
  next
    case (Cons x xs)
    then show ?thesis by (simp add: current_month_value_def cr assms(5) or_float_def)
  qed
  have ff: "fits_float q = converts"
    by (simp add: fits_float_def assms(9))
  have fl: "flush_fits prd q v pr = storable"
    by (cases v) (auto simp: flush_fits_def fits_integer_def assms(10))
  have sc: "storable \<Longrightarrow> converts"
  proof -
    assume storable
    then have "fits_integer q" using fl by (simp add: flush_fits_def)
    then show converts using ff by (simp add: fits_integer_float)
  qed
  have ot: "fmul (fsub (or_float (pre_order_price prd) (base_price prd))
                   (fmul (or_float (pre_order_price prd) (base_price prd))
                      (fdiv (discount_percentage plan) 100))) (float_of_int q) = order_total"
    by (simp add: assms(6,7))
  have ov: "(0 < total_preorder_value_limit sub
             \<and> total_preorder_value_limit sub < fadd month_sum order_total) = over"
    by (simp add: assms(8))
  have val: "validate_subscription_limits now sub prd q st =
               (if \<not> converts then Inl OverflowError_float
                else if over then Inl QuotaExceeded_value else Inr ())"
    using assms(3)
    by (simp add: validate_subscription_limits_def Let_def co cv ff assms(4) ot ov)
  consider (float) "\<not> converts" | (quota) "converts" "over"
    | (store) "converts" "\<not> over" "\<not> storable" | (admitted) "converts" "\<not> over" "storable"
    by blast
  then show ?thesis
  proof cases
    case float
    then have "validate_subscription_limits now sub prd q st = Inl OverflowError_float"
      using val by simp
    from create_pre_order_rejected [OF li this, of v pr]
    have "R = (Inl OverflowError_float, st)" by (simp add: assms(11))
    with float sc show ?thesis by auto
  next
    case quota
    then have "validate_subscription_limits now sub prd q st = Inl QuotaExceeded_value"
      using val by simp
    from create_pre_order_rejected [OF li this, of v pr]
    have "R = (Inl QuotaExceeded_value, st)" by (simp add: assms(11))
    with quota show ?thesis by auto
  next
    case store
    then have "validate_subscription_limits now sub prd q st = Inr ()"
      using val by simp
    moreover have "\<not> flush_fits prd q v pr" using store fl by simp
    ultimately have "R = (Inl OverflowError_store, st\<lparr>session := committed st\<rparr>)"
      using create_pre_order_overflow [OF li _ assms(4)] by (simp add: assms(11))
    with store show ?thesis by auto
  next
    case admitted
    then have "validate_subscription_limits now sub prd q st = Inr ()"
      using val by simp
    moreover have "flush_fits prd q v pr" using admitted fl by simp
    ultimately obtain po st' where "R = (Inr po, st')"
      using create_pre_order_accepted [OF li _ assms(4)] unfolding assms(11) by blast
    with admitted show ?thesis by auto
  qed
qed

lemma ex_quota_ledger:
  "ledger_inputs ex_now 1 1 q (ex_quota_state l)
     = Some (ex_sub\<lparr>monthly_preorder_limit := 5, current_month_preorders := 2,
                    total_preorder_value_limit := l, current_preorder_value := 90\<rparr>,
             ex_product\<lparr>current_pre_orders := 4\<rparr>)"
  by (simp add: ledger_inputs_def ex_quota_state_def ex_defs)

lemma ex_quota_plan:
  "subscription_plan_of (ex_quota_state l)
     (ex_sub\<lparr>monthly_preorder_limit := 5, current_month_preorders := 2,
             total_preorder_value_limit := l, current_preorder_value := 90\<rparr>) = Some ex_plan"
  by (simp add: subscription_plan_of_def ex_quota_state_def ex_defs)

lemma ex_quota_rows:
  "filter (\<lambda>r. po_subscription_id r = 1 \<and> month_start ex_now \<le> po_created_at r
               \<and> po_status r \<noteq> PreOrderStatus_CANCELLED)
     (pre_orders (session (ex_quota_state l)))
   = [ex_order, ex_order\<lparr>po_id := 5, unit_price := 30, total_amount := 30,
                        po_created_at := 63844848000000000\<rparr>]"
  by (simp add: ex_month_start ex_quota_state_def ex_march_orders_def ex_order_def
      ex_state_def ex_tables_def)

theorem create_pre_order_value_quota_witness:
  "fst (create_pre_order ex_now 1 1 1 None 1 (ex_quota_state 140)) = Inl QuotaExceeded_value
   \<and> (\<exists>po. fst (create_pre_order ex_now 1 1 1 None 1 (ex_quota_state 150)) = Inr po)
   \<and> (\<exists>po. fst (create_pre_order ex_now 1 1 1000 (Some 3) 2 (ex_quota_state 0)) = Inr po)
   \<and> fst (create_pre_order ex_now 1 1 (2 ^ 63 - 4) None 1 (ex_quota_state 0))
       = Inl OverflowError_store
   \<and> fst (create_pre_order ex_now 1 1 (2 ^ 1024) None 1 (ex_quota_state 140))
       = Inl OverflowError_float"
proof -
  note s = or_float_def fadd_def fmul_def fsub_def fdiv_def float_of_int_def rnd_zero rnd_one
    rnd_numeral
  have a: "fst (create_pre_order ex_now 1 1 1 None 1 (ex_quota_state 140))
             = Inl QuotaExceeded_value"
    using create_pre_order_value_quota
      [where v = None and pr = 1,
       OF ex_quota_ledger [of 1 140] refl _ ex_quota_plan refl refl refl refl refl refl refl]
    by (simp add: ex_quota_rows s ex_sub_def ex_product_def ex_plan_def ex_order_def)
  have b: "\<exists>po. fst (create_pre_order ex_now 1 1 1 None 1 (ex_quota_state 150)) = Inr po"
    using create_pre_order_value_quota
      [where v = None and pr = 1,
       OF ex_quota_ledger [of 1 150] refl _ ex_quota_plan refl refl refl refl refl refl refl]
    by (simp add: ex_quota_rows s ex_sub_def ex_product_def ex_plan_def ex_order_def)
  have c: "\<exists>po. fst (create_pre_order ex_now 1 1 1000 (Some 3) 2 (ex_quota_state 0)) = Inr po"
    using create_pre_order_value_quota
      [where v = "Some 3" and pr = 2,
       OF ex_quota_ledger [of 1000 0] refl _ ex_quota_plan refl refl refl refl refl refl refl]
    by (simp add: ex_quota_rows ex_sub_def ex_product_def ex_plan_def ex_order_def)
  have d: "fst (create_pre_order ex_now 1 1 (2 ^ 63 - 4) None 1 (ex_quota_state 0))
             = Inl OverflowError_store"
    using create_pre_order_value_quota
      [where v = None and pr = 1,
       OF ex_quota_ledger [of "2 ^ 63 - 4" 0] refl _ ex_quota_plan refl refl refl refl refl
          refl refl]
    by (simp add: ex_quota_rows ex_sub_def ex_product_def ex_plan_def ex_order_def)
  have e: "fst (create_pre_order ex_now 1 1 (2 ^ 1024) None 1 (ex_quota_state 140))
             = Inl OverflowError_float"
    using create_pre_order_value_quota
      [where v = None and pr = 1,
       OF ex_quota_ledger [of "2 ^ 1024" 140] refl _ ex_quota_plan refl refl refl refl refl
          refl refl]
    by (simp add: ex_quota_rows ex_sub_def ex_product_def ex_plan_def ex_order_def)
  from a b c d e show ?thesis by blast
qed

lemma rnd_two_63: "rnd 9223372036854775808 = 9223372036854775808"
  by (simp add: rnd_def rnd_pos_def normalise_unfold round_half_even_def)

text \<open>
  C2 as stated fails where the quantity does not fit the integer column.  The
  subscription below has no pre-order this month and a value limit of \<open>2^63\<close>; one
  pre-order of \<open>2^63\<close> units at \<open>1.0\<close> has a cumulative value equal to the limit exactly and
  passes the ledger, and the call is not admitted: the commit raises \<open>OverflowError\<close>.
\<close>

theorem create_pre_order_value_quota_counterexample:
  "fadd (current_month_value ex_now
           (ex_sub\<lparr>total_preorder_value_limit := 9223372036854775808\<rparr>) ex_limit_state)
        (fmul (fsub 1 (fmul 1 (fdiv 0 100))) (float_of_int (2 ^ 63)))
     = total_preorder_value_limit (ex_sub\<lparr>total_preorder_value_limit := 9223372036854775808\<rparr>)
   \<and> validate_subscription_limits ex_now
       (ex_sub\<lparr>total_preorder_value_limit := 9223372036854775808\<rparr>)
       (ex_product\<lparr>base_price := 1\<rparr>) (2 ^ 63) ex_limit_state = Inr ()
   \<and> create_pre_order ex_now 1 1 (2 ^ 63) None 1 ex_limit_state
     = (Inl OverflowError_store, ex_limit_state)"
  by (simp add: run_defs Let_def ex_limit_state_def rnd_two_63 ex_defs)

subsection \<open>What a successful \<open>create_pre_order\<close> returns\<close>

lemma ledger_inputs_None:
  assumes "ledger_inputs now sid pid q st = None"
  shows "\<exists>e. create_pre_order now sid pid q v pr st = (Inl e, st)"
proof (cases "find (\<lambda>s. sub_id s = sid \<and> sub_status s = SubscriptionStatus_ACTIVE)
           (subscriptions (session st))")
  case None
  then show ?thesis by (simp add: create_pre_order_def)
next
  case (Some s)
  note s = this
  show ?thesis
  proof (cases "find (\<lambda>p. prod_id p = pid \<and> prod_is_active p \<and> is_pre_order_eligible p)
           (products (session st))")
    case None
    with s show ?thesis by (simp add: create_pre_order_def)
  next
    case (Some p)
    with s assms show ?thesis
      by (simp add: create_pre_order_def ledger_inputs_def split: if_split_asm)
  qed
qed

lemma create_pre_order_InrD:
  assumes "create_pre_order now sid pid q v pr st = (Inr po, st')"
  shows "\<exists>sub prd plan.
           ledger_inputs now sid pid q st = Some (sub, prd)
         \<and> validate_subscription_limits now sub prd q st = Inr ()
         \<and> subscription_plan_of st sub = Some plan
         \<and> po = \<lparr> po_id = next_id (map po_id (pre_orders (session st))),
                  po_subscription_id = sid,
                  po_customer_id = sub_customer_id sub,
                  po_product_id = pid,
                  po_product_variant_id = v,
                  quantity = q,
                  unit_price = or_float (pre_order_price prd) (base_price prd),
                  discount_applied =
                    fmul (fmul (or_float (pre_order_price prd) (base_price prd))
                            (fdiv (discount_percentage plan) 100)) (float_of_int q),
                  total_amount =
                    fmul (fsub (or_float (pre_order_price prd) (base_price prd))
                            (fmul (or_float (pre_order_price prd) (base_price prd))
                               (fdiv (discount_percentage plan) 100))) (float_of_int q),
                  po_status = PreOrderStatus_PENDING,
                  po_expected_availability_date = expected_availability_date prd,
                  pre_order_deadline = pre_order_end_date prd,
                  priority_level = pr,
                  payment_status = ''pending'',
                  payment_intent_id = None,
                  po_created_at = now \<rparr>
         \<and> st' = notify (PreOrderConfirmation (sub_customer_id sub) (po_id po))
                   (commit
                     (update_subscription (sub_id sub)
                        (\<lambda>s. s\<lparr>current_month_preorders := current_month_preorders s + 1,
                               current_preorder_value :=
                                 fadd (current_preorder_value s) (total_amount po)\<rparr>)
                        (update_product (prod_id prd)
                           (\<lambda>p. p\<lparr>current_pre_orders := current_pre_orders p + q\<rparr>)
                           (add_pre_order po st))))"
proof (cases "ledger_inputs now sid pid q st")
  case None
  from ledger_inputs_None [OF this, of v pr] assms show ?thesis by auto
next
  case (Some sp)
  obtain sub prd where li: "ledger_inputs now sid pid q st = Some (sub, prd)"
    using Some by (cases sp) simp
  note D = ledger_inputsD [OF li]
  show ?thesis
  proof (cases "validate_subscription_limits now sub prd q st")
    case (Inl e)
    from create_pre_order_rejected [OF li Inl, of v pr] assms show ?thesis by simp
  next
    case (Inr u)
    note val = this
    show ?thesis
    proof (cases "subscription_plan_of st sub")
      case None
      with D val assms show ?thesis by (simp add: create_pre_order_def)
    next
      case (Some plan)
      have fits: "flush_fits prd q v pr"
      proof (rule ccontr)
        assume "\<not> flush_fits prd q v pr"
        from create_pre_order_overflow [OF li val Some this] assms show False by simp
      qed
      let ?po = "\<lparr> po_id = next_id (map po_id (pre_orders (session st))),
                  po_subscription_id = sid,
                  po_customer_id = sub_customer_id sub,
                  po_product_id = pid,
                  po_product_variant_id = v,
                  quantity = q,
                  unit_price = or_float (pre_order_price prd) (base_price prd),
                  discount_applied =
                    fmul (fmul (or_float (pre_order_price prd) (base_price prd))
                            (fdiv (discount_percentage plan) 100)) (float_of_int q),
                  total_amount =
                    fmul (fsub (or_float (pre_order_price prd) (base_price prd))
                            (fmul (or_float (pre_order_price prd) (base_price prd))
                               (fdiv (discount_percentage plan) 100))) (float_of_int q),
                  po_status = PreOrderStatus_PENDING,
                  po_expected_availability_date = expected_availability_date prd,
                  pre_order_deadline = pre_order_end_date prd,
                  priority_level = pr,
                  payment_status = ''pending'',
                  payment_intent_id = None,
                  po_created_at = now \<rparr>"
      let ?st = "notify (PreOrderConfirmation (sub_customer_id sub) (po_id ?po))
                   (commit
                     (update_subscription (sub_id sub)
                        (\<lambda>s. s\<lparr>current_month_preorders := current_month_preorders s + 1,
                               current_preorder_value :=
                                 fadd (current_preorder_value s) (total_amount ?po)\<rparr>)
                        (update_product (prod_id prd)
                           (\<lambda>p. p\<lparr>current_pre_orders := current_pre_orders p + q\<rparr>)
                           (add_pre_order ?po st))))"
      have c: "create_pre_order now sid pid q v pr st = (Inr ?po, ?st)"
        using D val Some fits by (simp add: create_pre_order_def Let_def)
      have "(Inr po :: error + pre_order, st') = (Inr ?po, ?st)"
        by (rule trans [OF assms [symmetric] c])
      then have eq: "po = ?po" "st' = ?st"
        by (simp_all only: prod.inject sum.inject)
      have u: "validate_subscription_limits now sub prd q st = Inr ()" using val by simp
      show ?thesis
        apply (rule exI [of _ sub], rule exI [of _ prd], rule exI [of _ plan])
        apply (intro conjI)
            apply (rule li)
           apply (rule u)
          apply (rule Some)
         apply (rule eq(1))
        apply (subst eq(2))
        apply (simp add: eq(1))
        done
    qed
  qed
qed

subsection \<open>Pricing\<close>

lemma session_after_create:
  "pre_orders (session (notify n (commit (update_subscription k f (update_product j g
      (add_pre_order po st)))))) = pre_orders (session st) @ [po]"
  "pre_orders (committed (notify n (commit (update_subscription k f (update_product j g
      (add_pre_order po st)))))) = pre_orders (session st) @ [po]"
  by (simp_all add: notify_def commit_def update_subscription_def update_product_def
      add_pre_order_def)

text \<open>
  C9 (amended).  Every pre-order that \<open>create_pre_order\<close> returns, and with it the row it
  has added to the session and committed, satisfies
  \<open>total_amount = (unit_price - unit_price * (discount_percentage / 100)) * quantity\<close>
  and \<open>discount_applied = (unit_price * (discount_percentage / 100)) * quantity\<close> in float
  arithmetic, with the discount percentage of the plan of the subscription, and with
  \<open>unit_price\<close> the \<open>pre_order_price\<close> of the product when that is set and is not \<open>0.0\<close>,
  and its \<open>base_price\<close> otherwise.
\<close>

theorem create_pre_order_pricing:
  assumes "create_pre_order now sid pid q v pr st = (Inr po, st')"
  shows "\<exists>sub prd plan.
           ledger_inputs now sid pid q st = Some (sub, prd)
         \<and> subscription_plan_of st sub = Some plan
         \<and> unit_price po =
             (case pre_order_price prd of None \<Rightarrow> base_price prd
              | Some p \<Rightarrow> if p = 0 then base_price prd else p)
         \<and> total_amount po =
             fmul (fsub (unit_price po)
                     (fmul (unit_price po) (fdiv (discount_percentage plan) 100)))
                  (float_of_int q)
         \<and> discount_applied po =
             fmul (fmul (unit_price po) (fdiv (discount_percentage plan) 100)) (float_of_int q)
         \<and> quantity po = q
         \<and> po \<in> set (pre_orders (session st'))
         \<and> po \<in> set (pre_orders (committed st'))"
proof -
  from create_pre_order_InrD [OF assms] obtain sub prd plan where
    li: "ledger_inputs now sid pid q st = Some (sub, prd)"
    and pl: "subscription_plan_of st sub = Some plan"
    and po: "po = \<lparr> po_id = next_id (map po_id (pre_orders (session st))),
                  po_subscription_id = sid,
                  po_customer_id = sub_customer_id sub,
                  po_product_id = pid,
                  po_product_variant_id = v,
                  quantity = q,
                  unit_price = or_float (pre_order_price prd) (base_price prd),
                  discount_applied =
                    fmul (fmul (or_float (pre_order_price prd) (base_price prd))
                            (fdiv (discount_percentage plan) 100)) (float_of_int q),
                  total_amount =
                    fmul (fsub (or_float (pre_order_price prd) (base_price prd))
                            (fmul (or_float (pre_order_price prd) (base_price prd))
                               (fdiv (discount_percentage plan) 100))) (float_of_int q),
                  po_status = PreOrderStatus_PENDING,
                  po_expected_availability_date = expected_availability_date prd,
                  pre_order_deadline = pre_order_end_date prd,
                  priority_level = pr,
                  payment_status = ''pending'',
                  payment_intent_id = None,
                  po_created_at = now \<rparr>"
    and st': "st' = notify (PreOrderConfirmation (sub_customer_id sub) (po_id po))
                   (commit
                     (update_subscription (sub_id sub)
                        (\<lambda>s. s\<lparr>current_month_preorders := current_month_preorders s + 1,
                               current_preorder_value :=
                                 fadd (current_preorder_value s) (total_amount po)\<rparr>)
                        (update_product (prod_id prd)
                           (\<lambda>p. p\<lparr>current_pre_orders := current_pre_orders p + q\<rparr>)
                           (add_pre_order po st))))"
    by blast
  have a: "unit_price po = (case pre_order_price prd of None \<Rightarrow> base_price prd
              | Some p \<Rightarrow> if p = 0 then base_price prd else p)"
    by (simp add: po or_float_def)
  have b: "total_amount po =
             fmul (fsub (unit_price po)
                     (fmul (unit_price po) (fdiv (discount_percentage plan) 100)))
                  (float_of_int q)"
    by (simp add: po)
  have c: "discount_applied po =
             fmul (fmul (unit_price po) (fdiv (discount_percentage plan) 100)) (float_of_int q)"
    by (simp add: po)
  have d: "quantity po = q" by (simp add: po)
  have e: "po \<in> set (pre_orders (session st'))" "po \<in> set (pre_orders (committed st'))"
    by (simp_all add: st' session_after_create)
  from li pl a b c d e show ?thesis by blast
qed

lemma ex_create_zero_price:
  "create_pre_order ex_now 1 1 1 None 1
     (ex_state [ex_sub] [ex_product\<lparr>pre_order_price := Some 0\<rparr>] [])
   = (Inr ex_order,
      \<lparr> session = ex_tables [ex_sub\<lparr>current_month_preorders := 1, current_preorder_value := 60\<rparr>]
                    [ex_product\<lparr>pre_order_price := Some 0, current_pre_orders := 1\<rparr>] [ex_order],
        committed = ex_tables [ex_sub\<lparr>current_month_preorders := 1, current_preorder_value := 60\<rparr>]
                    [ex_product\<lparr>pre_order_price := Some 0, current_pre_orders := 1\<rparr>] [ex_order],
        sent = [PreOrderConfirmation 7 1] \<rparr>)"
  by (simp add: run_defs Let_def ex_defs)

text \<open>
  C9 as stated fails where the pre-order price is set to \<open>0.0\<close>: the product below has
  \<open>pre_order_price = 0.0\<close> and \<open>base_price = 60.0\<close>, and the pre-order created for one
  unit at no discount has unit price and total \<open>60.0\<close>, not the \<open>0.0\<close> that the formula
  gives for the pre-order price.
\<close>

theorem create_pre_order_pricing_counterexample:
  "pre_order_price (ex_product\<lparr>pre_order_price := Some 0\<rparr>) = Some 0
   \<and> fst (create_pre_order ex_now 1 1 1 None 1
            (ex_state [ex_sub] [ex_product\<lparr>pre_order_price := Some 0\<rparr>] [])) = Inr ex_order
   \<and> unit_price ex_order = 60 \<and> total_amount ex_order = 60
   \<and> total_amount ex_order
       \<noteq> fmul (fsub 0 (fmul 0 (fdiv (discount_percentage ex_plan) 100))) (float_of_int 1)"
  by (simp add: ex_create_zero_price) (simp add: run_defs ex_defs)

theorem create_pre_order_pricing_witness:
  "\<exists>sub prd plan.
      ledger_inputs ex_now 1 1 1
        (ex_state [ex_sub] [ex_product\<lparr>pre_order_price := Some 0\<rparr>] []) = Some (sub, prd)
    \<and> subscription_plan_of
        (ex_state [ex_sub] [ex_product\<lparr>pre_order_price := Some 0\<rparr>] []) sub = Some plan
    \<and> unit_price ex_order =
        (case pre_order_price prd of None \<Rightarrow> base_price prd
         | Some p \<Rightarrow> if p = 0 then base_price prd else p)
    \<and> total_amount ex_order =
        fmul (fsub (unit_price ex_order)
                (fmul (unit_price ex_order) (fdiv (discount_percentage plan) 100)))
             (float_of_int 1)
    \<and> discount_applied ex_order =
        fmul (fmul (unit_price ex_order) (fdiv (discount_percentage plan) 100)) (float_of_int 1)
    \<and> quantity ex_order = 1"
  using create_pre_order_pricing [OF ex_create_zero_price] by blast

subsection \<open>The ledger does not read the counters\<close>

lemma find_list_all2:
  assumes "list_all2 R xs ys" and "\<And>x y. R x y \<Longrightarrow> P x = Q y"
  shows "rel_option R (find P xs) (find Q ys)"
  using assms(1)
proof (induction rule: list_all2_induct)
  case Nil
  then show ?case by simp
next
  case (Cons x xs y ys)
  then show ?case using assms(2) [of x y] by auto
qed

lemma same_but_counters_fields:
  assumes "same_but_counters s s'"
  shows "sub_id s' = sub_id s" "sub_status s' = sub_status s"
    "sub_customer_id s' = sub_customer_id s" "subscription_plan_id s' = subscription_plan_id s"
    "monthly_preorder_limit s' = monthly_preorder_limit s"
    "total_preorder_value_limit s' = total_preorder_value_limit s"
proof -
  from assms have e: "s' = s\<lparr>current_month_preorders := current_month_preorders s',
             current_preorder_value := current_preorder_value s'\<rparr>"
    by (simp add: same_but_counters_def)
  show "sub_id s' = sub_id s" by (subst e) simp
  show "sub_status s' = sub_status s" by (subst e) simp
  show "sub_customer_id s' = sub_customer_id s" by (subst e) simp
  show "subscription_plan_id s' = subscription_plan_id s" by (subst e) simp
  show "monthly_preorder_limit s' = monthly_preorder_limit s" by (subst e) simp
  show "total_preorder_value_limit s' = total_preorder_value_limit s" by (subst e) simp
qed

lemma validate_counters_irrelevant:
  assumes "agree_up_to_counters st st'" and "same_but_counters sub sub'"
  shows "validate_subscription_limits now sub' prd q st'
           = validate_subscription_limits now sub prd q st"
proof -
  note f = same_but_counters_fields [OF assms(2)]
  from assms(1) have pl: "subscription_plans (session st') = subscription_plans (session st)"
    and po: "pre_orders (session st') = pre_orders (session st)"
    by (simp_all add: agree_up_to_counters_def)
  have a: "current_month_rows now sub' st' = current_month_rows now sub st"
    by (simp add: current_month_rows_def po f)
  have b: "current_month_orders now sub' st' = current_month_orders now sub st"
    by (simp add: current_month_orders_def a)
  have c: "current_month_value now sub' st' = current_month_value now sub st"
    by (simp add: current_month_value_def a)
  have d: "subscription_plan_of st' sub' = subscription_plan_of st sub"
    by (simp add: subscription_plan_of_def pl f)
  show ?thesis
    unfolding validate_subscription_limits_def b c d f ..
qed

text \<open>
  C10.  Two states whose sessions hold the same plans, products and pre-orders, and
  subscriptions that agree row by row in every column but \<open>current_month_preorders\<close> and
  \<open>current_preorder_value\<close>, give the same result to the same call of
  \<open>create_pre_order\<close>: the same exception, or the same pre-order.  The decision of the
  ledger is taken on the stored pre-orders and the limit columns alone.
\<close>

theorem quota_decision_ignores_counters:
  assumes "agree_up_to_counters st st'"
  shows "fst (create_pre_order now sid pid q v pr st')
           = fst (create_pre_order now sid pid q v pr st)"
proof -
  let ?P = "\<lambda>s. sub_id s = sid \<and> sub_status s = SubscriptionStatus_ACTIVE"
  from assms have l: "list_all2 same_but_counters (subscriptions (session st))
      (subscriptions (session st'))"
    and pl: "subscription_plans (session st') = subscription_plans (session st)"
    and pr: "products (session st') = products (session st)"
    and po: "pre_orders (session st') = pre_orders (session st)"
    by (simp_all add: agree_up_to_counters_def)
  have r: "rel_option same_but_counters (find ?P (subscriptions (session st)))
       (find ?P (subscriptions (session st')))"
    by (rule find_list_all2 [OF l]) (simp add: same_but_counters_fields)
  show ?thesis
  proof (cases "find ?P (subscriptions (session st))")
    case None
    with r have "find ?P (subscriptions (session st')) = None" by (simp add: option_rel_Some1)
    with None show ?thesis by (simp add: create_pre_order_def)
  next
    case (Some sub)
    with r obtain sub' where s': "find ?P (subscriptions (session st')) = Some sub'"
      and sb: "same_but_counters sub sub'"
      by (auto simp: option_rel_Some1)
    note f = same_but_counters_fields [OF sb]
    have v: "\<And>prd. validate_subscription_limits now sub' prd q st'
           = validate_subscription_limits now sub prd q st"
      by (rule validate_counters_irrelevant [OF assms sb])
    have p: "subscription_plan_of st' sub' = subscription_plan_of st sub"
      by (simp add: subscription_plan_of_def pl f)
    show ?thesis
      by (simp add: create_pre_order_def Some s' pr po v p f Let_def
          split: option.split sum.split)
  qed
qed

theorem quota_decision_ignores_counters_witness:
  "agree_up_to_counters
     (ex_state [ex_sub\<lparr>monthly_preorder_limit := 1\<rparr>] [ex_product] [ex_order])
     (ex_state [ex_sub\<lparr>monthly_preorder_limit := 1, current_month_preorders := 0 - 5,
                       current_preorder_value := 5000\<rparr>] [ex_product] [ex_order])
   \<and> fst (create_pre_order ex_now 1 1 1 None 1
            (ex_state [ex_sub\<lparr>monthly_preorder_limit := 1, current_month_preorders := 0 - 5,
                              current_preorder_value := 5000\<rparr>] [ex_product] [ex_order]))
     = fst (create_pre_order ex_now 1 1 1 None 1
            (ex_state [ex_sub\<lparr>monthly_preorder_limit := 1\<rparr>] [ex_product] [ex_order]))"
proof -
  have a: "agree_up_to_counters
     (ex_state [ex_sub\<lparr>monthly_preorder_limit := 1\<rparr>] [ex_product] [ex_order])
     (ex_state [ex_sub\<lparr>monthly_preorder_limit := 1, current_month_preorders := 0 - 5,
                       current_preorder_value := 5000\<rparr>] [ex_product] [ex_order])"
    by (simp add: agree_up_to_counters_def same_but_counters_def ex_defs)
  from a quota_decision_ignores_counters [OF a] show ?thesis by blast
qed

subsection \<open>What \<open>cancel_pre_order\<close> does to a pre-order it may cancel\<close>

lemma relations_after_update:
  "product_of (update_pre_order k f st) po = product_of st po"
  "subscription_of (update_pre_order k f st) po = subscription_of st po"
  "subscription_of (update_product j g st) po = subscription_of st po"
  by (simp_all add: product_of_def subscription_of_def update_pre_order_def update_product_def)

lemma find_SomeD_id:
  "find (\<lambda>p. prod_id p = j) ps = Some prd \<Longrightarrow> prod_id prd = j"
  "find (\<lambda>s. sub_id s = i) ss = Some sub \<Longrightarrow> sub_id sub = i"
  by (auto simp: find_Some_iff)

lemma cancel_pre_order_run:
  assumes "find (\<lambda>p. po_id p = k) (pre_orders (session st)) = Some po"
    and "po_status po \<noteq> PreOrderStatus_CANCELLED"
    and "po_status po \<noteq> PreOrderStatus_PROCESSING"
    and "po_status po \<noteq> PreOrderStatus_FULFILLED"
    and "product_of st po = Some prd"
    and "subscription_of st po = Some sub"
    and "st3 = update_subscription (po_subscription_id po)
                 (\<lambda>s. s\<lparr>current_month_preorders := current_month_preorders s - 1,
                        current_preorder_value :=
                          fsub (current_preorder_value s) (total_amount po)\<rparr>)
                 (update_product (po_product_id po)
                    (\<lambda>p. p\<lparr>current_pre_orders := current_pre_orders p - quantity po\<rparr>)
                    (update_pre_order k (\<lambda>p. p\<lparr>po_status := PreOrderStatus_CANCELLED\<rparr>) st))"
  shows "cancel_pre_order pay k st =
           (if payment_status po = ''charged''
            then (case refund_payment pay (payment_intent_id po) (total_amount po) of
                    Inl e \<Rightarrow> (Inl e, st3)
                  | Inr _ \<Rightarrow>
                      (Inr (),
                       notify (PreOrderCancelled (po_customer_id po) k)
                         (commit (update_pre_order k
                                    (\<lambda>p. p\<lparr>payment_status := ''refunded''\<rparr>) st3))))
            else (Inr (), notify (PreOrderCancelled (po_customer_id po) k) (commit st3)))"
proof -
  have p: "prod_id prd = po_product_id po"
    using assms(5) unfolding product_of_def by (rule find_SomeD_id(1))
  have s: "sub_id sub = po_subscription_id po"
    using assms(6) unfolding subscription_of_def by (rule find_SomeD_id(2))
  show ?thesis
    using assms(1-6)
    by (simp add: cancel_pre_order_def Let_def relations_after_update p s assms(7)
        split: sum.split)
qed

subsection \<open>Cancellation and refund\<close>

text \<open>
  C7 (amended).  When \<open>cancel_pre_order\<close> is called on a pre-order that may be cancelled
  and whose \<open>payment_status\<close> is \<open>charged\<close>, the refund is invoked with its payment intent
  and total.  If the refund succeeds, the call succeeds, the pre-order has status
  \<open>cancelled\<close> and payment status \<open>refunded\<close>, the counters of its product and its
  subscription are decremented, and all of this is committed.  If the refund raises,
  the exception reaches the caller before \<^verbatim>\<open>db.commit()\<close>: the committed rows are
  those from before the call and nothing is sent, while the objects of the session
  carry status \<open>cancelled\<close> and the decremented counters, with the payment status still
  \<open>charged\<close>.
\<close>

theorem cancel_charged_pre_order:
  assumes "find (\<lambda>p. po_id p = k) (pre_orders (session st)) = Some po"
    and "po_status po \<noteq> PreOrderStatus_CANCELLED"
    and "po_status po \<noteq> PreOrderStatus_PROCESSING"
    and "po_status po \<noteq> PreOrderStatus_FULFILLED"
    and "product_of st po = Some prd"
    and "subscription_of st po = Some sub"
    and "payment_status po = ''charged''"
    and "st3 = update_subscription (po_subscription_id po)
                 (\<lambda>s. s\<lparr>current_month_preorders := current_month_preorders s - 1,
                        current_preorder_value :=
                          fsub (current_preorder_value s) (total_amount po)\<rparr>)
                 (update_product (po_product_id po)
                    (\<lambda>p. p\<lparr>current_pre_orders := current_pre_orders p - quantity po\<rparr>)
                    (update_pre_order k (\<lambda>p. p\<lparr>po_status := PreOrderStatus_CANCELLED\<rparr>) st))"
  shows "(refund_payment pay (payment_intent_id po) (total_amount po) = Inr ()
            \<longrightarrow> fst (cancel_pre_order pay k st) = Inr ()
              \<and> session (snd (cancel_pre_order pay k st))
                  = session (update_pre_order k (\<lambda>p. p\<lparr>payment_status := ''refunded''\<rparr>) st3)
              \<and> committed (snd (cancel_pre_order pay k st))
                  = session (snd (cancel_pre_order pay k st)))
       \<and> (\<forall>e. refund_payment pay (payment_intent_id po) (total_amount po) = Inl e
            \<longrightarrow> fst (cancel_pre_order pay k st) = Inl e
              \<and> session (snd (cancel_pre_order pay k st)) = session st3
              \<and> committed (snd (cancel_pre_order pay k st)) = committed st
              \<and> sent (snd (cancel_pre_order pay k st)) = sent st)"
proof -
  note run = cancel_pre_order_run [OF assms(1-6) assms(8), of pay]
  have c: "committed st3 = committed st" "sent st3 = sent st"
    by (simp_all add: assms(8) update_subscription_def update_product_def update_pre_order_def)
  show ?thesis
    by (simp add: run assms(7) c notify_def commit_def update_pre_order_def)
qed

text \<open>
  C7 as stated fails: with a refund that is declined, the cancellation of the charged
  pre-order below returns the refund error, and the committed rows are unchanged: the
  pre-order is still \<open>confirmed\<close> and the counters still count it.
\<close>

theorem cancel_charged_pre_order_counterexample:
  "fst (cancel_pre_order pay_declined 1
          (ex_state [ex_sub_used] [ex_product_used] [ex_charged]))
     = Inl (RefundFailed ''declined'')
   \<and> committed (snd (cancel_pre_order pay_declined 1
          (ex_state [ex_sub_used] [ex_product_used] [ex_charged])))
     = committed (ex_state [ex_sub_used] [ex_product_used] [ex_charged])
   \<and> map po_status (pre_orders (committed (snd (cancel_pre_order pay_declined 1
          (ex_state [ex_sub_used] [ex_product_used] [ex_charged])))))
     = [PreOrderStatus_CONFIRMED]
   \<and> map current_pre_orders (products (committed (snd (cancel_pre_order pay_declined 1
          (ex_state [ex_sub_used] [ex_product_used] [ex_charged])))))
     = [1]
   \<and> map current_month_preorders (subscriptions (committed (snd (cancel_pre_order pay_declined 1
          (ex_state [ex_sub_used] [ex_product_used] [ex_charged])))))
     = [1]"
  by (simp add: cancel_pre_order_def run_defs Let_def ex_defs)

theorem cancel_charged_pre_order_witness:
  "fst (cancel_pre_order pay_declined 1
          (ex_state [ex_sub_used] [ex_product_used] [ex_charged]))
     = Inl (RefundFailed ''declined'')
   \<and> committed (snd (cancel_pre_order pay_declined 1
          (ex_state [ex_sub_used] [ex_product_used] [ex_charged])))
     = committed (ex_state [ex_sub_used] [ex_product_used] [ex_charged])
   \<and> map po_status (pre_orders (session (snd (cancel_pre_order pay_declined 1
          (ex_state [ex_sub_used] [ex_product_used] [ex_charged])))))
     = [PreOrderStatus_CANCELLED]
   \<and> fst (cancel_pre_order pay_ok 1
          (ex_state [ex_sub_used] [ex_product_used] [ex_charged]))
     = Inr ()
   \<and> map payment_status (pre_orders (committed (snd (cancel_pre_order pay_ok 1
          (ex_state [ex_sub_used] [ex_product_used] [ex_charged])))))
     = [''refunded'']"
proof -
  let ?st = "ex_state [ex_sub_used] [ex_product_used] [ex_charged]"
  have a: "find (\<lambda>p. po_id p = 1) (pre_orders (session ?st)) = Some ex_charged"
    by (simp add: ex_defs)
  have b: "po_status ex_charged \<noteq> PreOrderStatus_CANCELLED"
    "po_status ex_charged \<noteq> PreOrderStatus_PROCESSING"
    "po_status ex_charged \<noteq> PreOrderStatus_FULFILLED"
    "payment_status ex_charged = ''charged''"
    by (simp_all add: ex_defs)
  have c: "product_of ?st ex_charged = Some ex_product_used"
    "subscription_of ?st ex_charged = Some ex_sub_used"
    by (simp_all add: product_of_def subscription_of_def ex_defs)
  have d: "refund_payment pay_declined (payment_intent_id ex_charged) (total_amount ex_charged)
             = Inl (RefundFailed ''declined'')"
    "refund_payment pay_ok (payment_intent_id ex_charged) (total_amount ex_charged) = Inr ()"
    by (simp_all add: pay_declined_def pay_ok_def)
  from cancel_charged_pre_order [OF a b(1-3) c b(4) refl, of pay_declined] d(1)
    cancel_charged_pre_order [OF a b(1-3) c b(4) refl, of pay_ok] d(2)
  show ?thesis
    by (simp add: run_defs ex_defs)
qed

subsection \<open>Creating and then cancelling a pre-order\<close>

text \<open>Facts about the floats \<^verbatim>\<open>0.1\<close> and \<^verbatim>\<open>0.2\<close>: \<^verbatim>\<open>0.1 + 0.2 - 0.2\<close> is not \<^verbatim>\<open>0.1\<close>.\<close>

lemmas rnd_eval = rnd_def rnd_pos_def normalise_unfold round_half_even_def

lemma ex_tenth_value: "ex_tenth = 3602879701896397 / 36028797018963968"
  unfolding ex_tenth_def by (rule rnd_tenth)

lemma ex_fifth_value: "ex_fifth = 3602879701896397 / 18014398509481984"
  unfolding ex_fifth_def by (rule rnd_fifth)

lemma ex_fifth_float: "rnd ex_fifth = ex_fifth"
  by (simp add: ex_fifth_value) (simp add: rnd_eval)

lemma ex_tenth_plus_fifth: "fadd ex_tenth ex_fifth = 1351079888211149 / 4503599627370496"
  unfolding ex_tenth_def ex_fifth_def by (rule tenth_plus_fifth)

lemma ex_minus_fifth:
  "fsub (1351079888211149 / 4503599627370496) ex_fifth = 1801439850948199 / 18014398509481984"
  by (simp add: fsub_def ex_fifth_value) (simp add: rnd_eval)

lemma ex_round_trip: "fsub (fadd ex_tenth ex_fifth) ex_fifth \<noteq> ex_tenth"
  by (simp add: ex_tenth_plus_fifth ex_minus_fifth) (simp add: ex_tenth_value)

lemma ex_fifth_total:
  "fmul (fsub ex_fifth (fmul ex_fifth (fdiv 0 100))) (float_of_int 1) = ex_fifth"
  by (simp add: fmul_def fsub_def fdiv_def float_of_int_def rnd_zero rnd_one ex_fifth_float)

lemma ex_fifth_nonzero: "ex_fifth \<noteq> 0"
  by (simp add: ex_fifth_value)

lemma next_id_fresh: "k \<in> set ks \<Longrightarrow> k < next_id ks"
proof -
  have "k \<in> set ks \<Longrightarrow> k \<le> foldr max ks 0"
    by (induction ks) auto
  then show "k \<in> set ks \<Longrightarrow> k < next_id ks" by (simp add: next_id_def)
qed

lemma find_new_row:
  "\<forall>p \<in> set os. po_id p \<noteq> po_id po \<Longrightarrow>
     find (\<lambda>p. po_id p = po_id po) (os @ [po]) = Some po"
  by (induction os) auto

lemma find_weaken:
  "find (\<lambda>x. key x = j \<and> P x) xs = Some y \<Longrightarrow> \<exists>z. find (\<lambda>x. key x = j) xs = Some z"
  by (cases "find (\<lambda>x. key x = j) xs") (auto simp: find_None_iff find_Some_iff)

lemma find_map_update:
  assumes "\<And>x. key (g x) = key x"
  shows "find (\<lambda>x. key x = j) (map (\<lambda>x. if key x = i then g x else x) xs)
           = map_option (\<lambda>x. if key x = i then g x else x) (find (\<lambda>x. key x = j) xs)"
  by (induction xs) (auto simp: assms)

lemma products_round_trip:
  "map (\<lambda>p. if prod_id p = j then p\<lparr>current_pre_orders := current_pre_orders p - q\<rparr> else p)
     (map (\<lambda>p. if prod_id p = j then p\<lparr>current_pre_orders := current_pre_orders p + q\<rparr> else p)
        ps) = ps"
  by (induction ps) auto

lemma subscriptions_round_trip:
  "map (\<lambda>s. if sub_id s = i
             then s\<lparr>current_month_preorders := current_month_preorders s - 1,
                    current_preorder_value := fsub (current_preorder_value s) t\<rparr>
             else s)
     (map (\<lambda>s. if sub_id s = i
                then s\<lparr>current_month_preorders := current_month_preorders s + 1,
                       current_preorder_value := fadd (current_preorder_value s) t\<rparr>
                else s) ss)
   = map (\<lambda>s. if sub_id s = i
               then s\<lparr>current_preorder_value := fsub (fadd (current_preorder_value s) t) t\<rparr>
               else s) ss"
  by (induction ss) auto

text \<open>
  C6 (amended).  In every state in which \<open>create_pre_order\<close> succeeds, cancelling the
  created pre-order at once succeeds and is committed; it restores the
  \<open>current_pre_orders\<close> of every product and the \<open>current_month_preorders\<close> of every
  subscription to exactly their values before the creation, and it leaves
  \<open>current_preorder_value\<close> at \<open>(v + total_amount) - total_amount\<close> in float arithmetic,
  where \<open>v\<close> is the value before the creation.  That is \<open>v\<close> itself whenever \<open>v\<close> is a float
  and the sum \<open>v + total_amount\<close> needs no rounding.
\<close>

theorem create_then_cancel:
  assumes "create_pre_order now sid pid q v pr st = (Inr po, st1)"
  shows "fst (cancel_pre_order pay (po_id po) st1) = Inr ()
       \<and> products (session (snd (cancel_pre_order pay (po_id po) st1))) = products (session st)
       \<and> subscriptions (session (snd (cancel_pre_order pay (po_id po) st1)))
           = map (\<lambda>s. if sub_id s = sid
                       then s\<lparr>current_preorder_value :=
                                fsub (fadd (current_preorder_value s) (total_amount po))
                                  (total_amount po)\<rparr>
                       else s)
                 (subscriptions (session st))
       \<and> committed (snd (cancel_pre_order pay (po_id po) st1))
           = session (snd (cancel_pre_order pay (po_id po) st1))
       \<and> ((\<forall>s \<in> set (subscriptions (session st)). sub_id s = sid \<longrightarrow>
               rnd (current_preorder_value s) = current_preorder_value s
             \<and> rnd (current_preorder_value s + total_amount po)
                 = current_preorder_value s + total_amount po)
            \<longrightarrow> subscriptions (session (snd (cancel_pre_order pay (po_id po) st1)))
                  = subscriptions (session st))"
proof -
  from create_pre_order_InrD [OF assms] obtain sub prd plan where
    li: "ledger_inputs now sid pid q st = Some (sub, prd)"
    and pl: "subscription_plan_of st sub = Some plan"
    and po: "po = \<lparr> po_id = next_id (map po_id (pre_orders (session st))),
                  po_subscription_id = sid,
                  po_customer_id = sub_customer_id sub,
                  po_product_id = pid,
                  po_product_variant_id = v,
                  quantity = q,
                  unit_price = or_float (pre_order_price prd) (base_price prd),
                  discount_applied =
                    fmul (fmul (or_float (pre_order_price prd) (base_price prd))
                            (fdiv (discount_percentage plan) 100)) (float_of_int q),
                  total_amount =
                    fmul (fsub (or_float (pre_order_price prd) (base_price prd))
                            (fmul (or_float (pre_order_price prd) (base_price prd))
                               (fdiv (discount_percentage plan) 100))) (float_of_int q),
                  po_status = PreOrderStatus_PENDING,
                  po_expected_availability_date = expected_availability_date prd,
                  pre_order_deadline = pre_order_end_date prd,
                  priority_level = pr,
                  payment_status = ''pending'',
                  payment_intent_id = None,
                  po_created_at = now \<rparr>"
    and st1: "st1 = notify (PreOrderConfirmation (sub_customer_id sub) (po_id po))
                   (commit
                     (update_subscription (sub_id sub)
                        (\<lambda>s. s\<lparr>current_month_preorders := current_month_preorders s + 1,
                               current_preorder_value :=
                                 fadd (current_preorder_value s) (total_amount po)\<rparr>)
                        (update_product (prod_id prd)
                           (\<lambda>p. p\<lparr>current_pre_orders := current_pre_orders p + q\<rparr>)
                           (add_pre_order po st))))"
    by blast
  note D = ledger_inputsD [OF li]
  have ids: "sub_id sub = sid" "prod_id prd = pid"
    using D(1,2) by (auto simp: find_Some_iff)
  have f: "po_id po = next_id (map po_id (pre_orders (session st)))"
    "po_subscription_id po = sid" "po_product_id po = pid" "quantity po = q"
    "po_status po = PreOrderStatus_PENDING" "payment_status po = ''pending''"
    by (simp_all add: po)
  have t1: "pre_orders (session st1) = pre_orders (session st) @ [po]"
    and t2: "products (session st1) =
       map (\<lambda>p. if prod_id p = pid then p\<lparr>current_pre_orders := current_pre_orders p + q\<rparr> else p)
         (products (session st))"
    and t3: "subscriptions (session st1) =
       map (\<lambda>s. if sub_id s = sid
                 then s\<lparr>current_month_preorders := current_month_preorders s + 1,
                        current_preorder_value :=
                          fadd (current_preorder_value s) (total_amount po)\<rparr>
                 else s) (subscriptions (session st))"
    by (simp_all add: st1 ids notify_def commit_def update_subscription_def update_product_def
        add_pre_order_def)
  have fresh: "\<forall>p \<in> set (pre_orders (session st)). po_id p \<noteq> po_id po"
  proof
    fix p assume "p \<in> set (pre_orders (session st))"
    then have "po_id p \<in> set (map po_id (pre_orders (session st)))" by simp
    from next_id_fresh [OF this] show "po_id p \<noteq> po_id po" by (simp add: f(1))
  qed
  have a1: "find (\<lambda>p. po_id p = po_id po) (pre_orders (session st1)) = Some po"
    unfolding t1 by (rule find_new_row [OF fresh])
  obtain prd0 where p0: "find (\<lambda>p. prod_id p = pid) (products (session st)) = Some prd0"
    using find_weaken [OF D(2)] by blast
  obtain sub0 where s0: "find (\<lambda>s. sub_id s = sid) (subscriptions (session st)) = Some sub0"
    using find_weaken [OF D(1)] by blast
  have a5: "\<exists>prd'. product_of st1 po = Some prd'"
    unfolding product_of_def t2 f(3)
    by (subst find_map_update) (simp_all add: p0)
  have a6: "\<exists>sub'. subscription_of st1 po = Some sub'"
    unfolding subscription_of_def t3 f(2)
    by (subst find_map_update) (simp_all add: s0)
  from a5 a6 obtain prd' sub' where
    a5': "product_of st1 po = Some prd'" and a6': "subscription_of st1 po = Some sub'" by blast
  have st: "po_status po \<noteq> PreOrderStatus_CANCELLED" "po_status po \<noteq> PreOrderStatus_PROCESSING"
    "po_status po \<noteq> PreOrderStatus_FULFILLED"
    by (simp_all add: f(5))
  note run = cancel_pre_order_run [OF a1 st a5' a6' refl, of pay]
  let ?st3 = "update_subscription (po_subscription_id po)
                 (\<lambda>s. s\<lparr>current_month_preorders := current_month_preorders s - 1,
                        current_preorder_value :=
                          fsub (current_preorder_value s) (total_amount po)\<rparr>)
                 (update_product (po_product_id po)
                    (\<lambda>p. p\<lparr>current_pre_orders := current_pre_orders p - quantity po\<rparr>)
                    (update_pre_order (po_id po)
                       (\<lambda>p. p\<lparr>po_status := PreOrderStatus_CANCELLED\<rparr>) st1))"
  have res: "cancel_pre_order pay (po_id po) st1
               = (Inr (), notify (PreOrderCancelled (po_customer_id po) (po_id po)) (commit ?st3))"
    by (simp add: run f(6))
  have r1: "fst (cancel_pre_order pay (po_id po) st1) = Inr ()"
    by (simp add: res)
  have r2: "products (session (snd (cancel_pre_order pay (po_id po) st1))) = products (session st)"
    by (simp add: res f(2-4) notify_def commit_def update_subscription_def update_product_def
        update_pre_order_def t2 products_round_trip del: map_map)
  have r3: "subscriptions (session (snd (cancel_pre_order pay (po_id po) st1)))
           = map (\<lambda>s. if sub_id s = sid
                       then s\<lparr>current_preorder_value :=
                                fsub (fadd (current_preorder_value s) (total_amount po))
                                  (total_amount po)\<rparr>
                       else s)
                 (subscriptions (session st))"
    by (simp add: res f(2-4) notify_def commit_def update_subscription_def update_product_def
        update_pre_order_def t3 subscriptions_round_trip del: map_map)
  have r4: "committed (snd (cancel_pre_order pay (po_id po) st1))
           = session (snd (cancel_pre_order pay (po_id po) st1))"
    by (simp add: res notify_def commit_def)
  have r5: "subscriptions (session (snd (cancel_pre_order pay (po_id po) st1)))
                  = subscriptions (session st)"
    if ex: "\<forall>s \<in> set (subscriptions (session st)). sub_id s = sid \<longrightarrow>
               rnd (current_preorder_value s) = current_preorder_value s
             \<and> rnd (current_preorder_value s + total_amount po)
                 = current_preorder_value s + total_amount po"
    unfolding r3
  proof (rule map_idI)
    fix s assume "s \<in> set (subscriptions (session st))"
    with ex have "sub_id s = sid \<Longrightarrow>
        fsub (fadd (current_preorder_value s) (total_amount po)) (total_amount po)
          = current_preorder_value s"
      by (simp add: fsub_def fadd_def)
    then show "(if sub_id s = sid
          then s\<lparr>current_preorder_value :=
                   fsub (fadd (current_preorder_value s) (total_amount po))
                     (total_amount po)\<rparr>
          else s) = s"
      by simp
  qed
  from r1 r2 r3 r4 r5 show ?thesis by blast
qed

text \<open>
  C6 as stated fails on the value counter: a subscription with
  \<open>current_preorder_value = 0.1\<close> that creates and cancels a pre-order of one unit at
  \<open>0.2\<close> ends with \<open>0.1 + 0.2 - 0.2\<close>, which in float arithmetic is
  \<open>0.10000000000000003\<close>.
\<close>

lemmas ex_float_eval = create_pre_order_def validate_subscription_limits_def flush_fits_def
  fits_integer_def fits_float_def
  current_month_orders_def current_month_value_def current_month_rows_def
  subscription_plan_of_def product_of_def subscription_of_def
  update_subscription_def update_product_def update_pre_order_def add_pre_order_def
  commit_def notify_def next_id_def or_float_def cancel_pre_order_def

lemma ex_fifth_discount:
  "fmul (fmul ex_fifth (fdiv 0 100)) (float_of_int 1) = 0"
  by (simp add: fmul_def fdiv_def float_of_int_def rnd_zero rnd_one)

lemma ex_create_float:
  "create_pre_order ex_now 1 1 1 None 1
     (ex_state [ex_sub\<lparr>current_preorder_value := ex_tenth, total_preorder_value_limit := 0\<rparr>]
        [ex_product\<lparr>base_price := ex_fifth\<rparr>] [])
   = (Inr (ex_order\<lparr>unit_price := ex_fifth, total_amount := ex_fifth\<rparr>),
      \<lparr> session = ex_tables
          [ex_sub\<lparr>current_preorder_value := fadd ex_tenth ex_fifth,
                  total_preorder_value_limit := 0, current_month_preorders := 1\<rparr>]
          [ex_product\<lparr>base_price := ex_fifth, current_pre_orders := 1\<rparr>]
          [ex_order\<lparr>unit_price := ex_fifth, total_amount := ex_fifth\<rparr>],
        committed = ex_tables
          [ex_sub\<lparr>current_preorder_value := fadd ex_tenth ex_fifth,
                  total_preorder_value_limit := 0, current_month_preorders := 1\<rparr>]
          [ex_product\<lparr>base_price := ex_fifth, current_pre_orders := 1\<rparr>]
          [ex_order\<lparr>unit_price := ex_fifth, total_amount := ex_fifth\<rparr>],
        sent = [PreOrderConfirmation 7 1] \<rparr>)"
  by (simp add: ex_float_eval Let_def ex_fifth_total ex_fifth_discount ex_fifth_nonzero
      ex_now_def ex_plan_def ex_sub_def ex_product_def ex_order_def ex_tables_def ex_state_def)

theorem create_then_cancel_counterexample:
  "fst (create_pre_order ex_now 1 1 1 None 1
     (ex_state [ex_sub\<lparr>current_preorder_value := ex_tenth, total_preorder_value_limit := 0\<rparr>]
        [ex_product\<lparr>base_price := ex_fifth\<rparr>] []))
     = Inr (ex_order\<lparr>unit_price := ex_fifth, total_amount := ex_fifth\<rparr>)
   \<and> fst (cancel_pre_order pay_ok 1
       (snd (create_pre_order ex_now 1 1 1 None 1
         (ex_state [ex_sub\<lparr>current_preorder_value := ex_tenth, total_preorder_value_limit := 0\<rparr>]
            [ex_product\<lparr>base_price := ex_fifth\<rparr>] [])))) = Inr ()
   \<and> map current_preorder_value (subscriptions (session (snd (cancel_pre_order pay_ok 1
       (snd (create_pre_order ex_now 1 1 1 None 1
         (ex_state [ex_sub\<lparr>current_preorder_value := ex_tenth, total_preorder_value_limit := 0\<rparr>]
            [ex_product\<lparr>base_price := ex_fifth\<rparr>] [])))))))
     \<noteq> map current_preorder_value (subscriptions (session
         (ex_state [ex_sub\<lparr>current_preorder_value := ex_tenth, total_preorder_value_limit := 0\<rparr>]
            [ex_product\<lparr>base_price := ex_fifth\<rparr>] [])))"
  by (simp add: ex_create_float)
     (simp add: ex_float_eval Let_def ex_round_trip
      ex_now_def ex_plan_def ex_sub_def ex_product_def ex_order_def ex_tables_def ex_state_def)

theorem create_then_cancel_witness:
  "fst (cancel_pre_order pay_ok 1
       (snd (create_pre_order ex_now 1 1 1 None 1 (ex_state [ex_sub] [ex_product] [])))) = Inr ()
   \<and> products (session (snd (cancel_pre_order pay_ok 1
       (snd (create_pre_order ex_now 1 1 1 None 1 (ex_state [ex_sub] [ex_product] []))))))
     = [ex_product]
   \<and> subscriptions (session (snd (cancel_pre_order pay_ok 1
       (snd (create_pre_order ex_now 1 1 1 None 1 (ex_state [ex_sub] [ex_product] []))))))
     = [ex_sub]"
proof -
  have c: "create_pre_order ex_now 1 1 1 None 1 (ex_state [ex_sub] [ex_product] [])
        = (Inr ex_order, snd (create_pre_order ex_now 1 1 1 None 1 (ex_state [ex_sub] [ex_product] [])))"
    by (simp add: run_defs Let_def ex_defs)
  have i: "po_id ex_order = 1" by (simp add: ex_order_def)
  from create_then_cancel [OF c, of pay_ok] show ?thesis
    by (simp add: i fsub_def fadd_def rnd_zero rnd_numeral ex_defs)
qed

subsection \<open>The billing sweep, row by row\<close>

text \<open>
  A renewal either raises and leaves the state as it was, or succeeds and rewrites the
  row of its subscription; whether it succeeds depends on the plans and the payment
  service only, not on what the sweep has done before.  So, with unique identifiers,
  the sweep leaves at each due subscription the row that its own renewal produces.
\<close>

lemma sub_id_renewed: "sub_id (renewed f s) = sub_id s"
  by (simp add: renewed_def Let_def)

lemma find_distinct:
  "distinct (map key xs) \<Longrightarrow> x \<in> set xs \<Longrightarrow> find (\<lambda>y. key y = key x) xs = Some x"
  by (induction xs) (auto simp: image_iff)

lemma find_update_same:
  assumes "\<And>x. key (g x) = key x"
  shows "find (\<lambda>x. key x = i) (map (\<lambda>x. if key x = i then g x else x) xs)
           = map_option g (find (\<lambda>x. key x = i) xs)"
  by (induction xs) (auto simp: assms)

lemma find_update_other:
  assumes "\<And>x. key (g x) = key x" and "i \<noteq> j"
  shows "find (\<lambda>x. key x = j) (map (\<lambda>x. if key x = i then g x else x) xs)
           = find (\<lambda>x. key x = j) xs"
  using assms(2) by (induction xs) (auto simp: assms(1))

lemma renewal_cases:
  obtains (failure) e where "process_subscription_renewal pay sub st = (Inl e, st)"
  | (success) plan where "subscription_plan_of st sub = Some plan"
      "process_subscription_renewal pay sub st
        = (Inr (),
           notify (BillingSuccess (sub_customer_id sub) (sub_id sub) (price plan))
             (commit (update_subscription (sub_id sub) (renewed (billing_frequency plan)) st)))"
proof (cases "subscription_plan_of st sub")
  case None
  then have "process_subscription_renewal pay sub st = (Inl (AttributeError ''price''), st)"
    by (simp add: process_subscription_renewal_def)
  then show ?thesis by (rule failure)
next
  case (Some plan)
  note plan = this
  show ?thesis
  proof (cases "charge_subscription pay (sub_customer_id sub) (price plan)
             (payment_method_id sub) (''Subscription renewal - '' @ plan_name plan)")
    case (Inl e)
    with plan have "process_subscription_renewal pay sub st = (Inl e, st)"
      by (simp add: process_subscription_renewal_def)
    then show ?thesis by (rule failure)
  next
    case (Inr r)
    show ?thesis
    proof (cases "(billing_frequency plan = PaymentFrequency_MONTHLY
              \<or> billing_frequency plan = PaymentFrequency_QUARTERLY
              \<or> billing_frequency plan = PaymentFrequency_ANNUALLY)
             \<and> next_billing_date sub = None")
      case True
      with plan Inr have "process_subscription_renewal pay sub st
          = (Inl (TypeError ''unsupported operand type(s) for +=''), st)"
        by (simp add: process_subscription_renewal_def)
      then show ?thesis by (rule failure)
    next
      case False
      with plan Inr have "process_subscription_renewal pay sub st
        = (Inr (),
           notify (BillingSuccess (sub_customer_id sub) (sub_id sub) (price plan))
             (commit (update_subscription (sub_id sub) (renewed (billing_frequency plan)) st)))"
        by (simp add: process_subscription_renewal_def Let_def)
      with plan show ?thesis by (rule success)
    qed
  qed
qed

lemma renewal_outcome_state:
  assumes "subscription_plans (session st') = subscription_plans (session st)"
  shows "fst (process_subscription_renewal pay sub st')
           = fst (process_subscription_renewal pay sub st)"
proof -
  have p: "subscription_plan_of st' sub = subscription_plan_of st sub"
    by (simp add: subscription_plan_of_def assms)
  show ?thesis
  proof (cases "subscription_plan_of st sub")
    case None
    then show ?thesis by (simp add: process_subscription_renewal_def p)
  next
    case (Some plan)
    then show ?thesis
      by (cases "charge_subscription pay (sub_customer_id sub) (price plan)
             (payment_method_id sub) (''Subscription renewal - '' @ plan_name plan)")
         (simp_all add: process_subscription_renewal_def p Let_def)
  qed
qed


lemma session_notify: "session (notify n st) = session st"
  by (simp add: notify_def)

lemma renewed_session:
  "subscriptions (session (notify n (commit (update_subscription k f st))))
     = map (\<lambda>s. if sub_id s = k then f s else s) (subscriptions (session st))"
  "subscription_plans (session (notify n (commit (update_subscription k f st))))
     = subscription_plans (session st)"
  by (simp_all add: notify_def commit_def update_subscription_def)

lemma renew_each_plans:
  "subscription_plans (session (renew_each pay ds st)) = subscription_plans (session st)"
proof (induction ds arbitrary: st)
  case Nil
  then show ?case by simp
next
  case (Cons x rest)
  show ?case
  proof (cases rule: renewal_cases [of pay x st])
    case (failure e)
    then show ?thesis by (simp add: Cons.IH session_notify)
  next
    case (success plan)
    then show ?thesis by (simp add: Cons.IH renewed_session)
  qed
qed

lemma renew_each_other:
  "k \<notin> sub_id ` set ds \<Longrightarrow>
     find (\<lambda>s. sub_id s = k) (subscriptions (session (renew_each pay ds st)))
       = find (\<lambda>s. sub_id s = k) (subscriptions (session st))"
proof (induction ds arbitrary: st)
  case Nil
  then show ?case by simp
next
  case (Cons x rest)
  from Cons.prems have k: "sub_id x \<noteq> k" "k \<notin> sub_id ` set rest" by auto
  show ?case
  proof (cases rule: renewal_cases [of pay x st])
    case (failure e)
    then show ?thesis by (simp add: Cons.IH [OF k(2)] session_notify)
  next
    case (success plan)
    have "find (\<lambda>s. sub_id s = k)
            (map (\<lambda>s. if sub_id s = sub_id x then renewed (billing_frequency plan) s else s)
               (subscriptions (session st)))
          = find (\<lambda>s. sub_id s = k) (subscriptions (session st))"
      by (rule find_update_other) (simp_all add: sub_id_renewed k(1))
    with success show ?thesis by (simp add: Cons.IH [OF k(2)] renewed_session)
  qed
qed

lemma renew_each_row:
  assumes "distinct (map sub_id ds)" and "d \<in> set ds"
    and "find (\<lambda>s. sub_id s = sub_id d) (subscriptions (session st)) = Some d"
  shows "find (\<lambda>s. sub_id s = sub_id d) (subscriptions (session (renew_each pay ds st)))
           = Some (if fst (process_subscription_renewal pay d st) = Inr ()
                   then renewal_of st d else d)"
  using assms
proof (induction ds arbitrary: st)
  case Nil
  then show ?case by simp
next
  case (Cons x rest)
  from Cons.prems(1) have dis: "distinct (map sub_id rest)" "sub_id x \<notin> sub_id ` set rest"
    by simp_all
  show ?case
  proof (cases "d = x")
    case True
    note notin = dis(2)
    show ?thesis
    proof (cases rule: renewal_cases [of pay x st])
      case (failure e)
      then show ?thesis
        using True Cons.prems(3) by (simp add: renew_each_other [OF notin] session_notify)
    next
      case (success plan)
      have "find (\<lambda>s. sub_id s = sub_id x)
            (map (\<lambda>s. if sub_id s = sub_id x then renewed (billing_frequency plan) s else s)
               (subscriptions (session st)))
          = map_option (renewed (billing_frequency plan))
              (find (\<lambda>s. sub_id s = sub_id x) (subscriptions (session st)))"
        by (rule find_update_same) (simp add: sub_id_renewed)
      with success True Cons.prems(3) show ?thesis
        by (simp add: renew_each_other [OF notin] renewed_session renewal_of_def)
    qed
  next
    case False
    with Cons.prems(2) have d: "d \<in> set rest" by simp
    with dis(2) have ne: "sub_id x \<noteq> sub_id d" by auto
    show ?thesis
    proof (cases rule: renewal_cases [of pay x st])
      case (failure e)
      let ?st1 = "notify (BillingFailed (sub_customer_id x) (sub_id x) e) st"
      have f: "find (\<lambda>s. sub_id s = sub_id d) (subscriptions (session ?st1)) = Some d"
        using Cons.prems(3) by (simp add: session_notify)
      have o: "fst (process_subscription_renewal pay d ?st1)
                 = fst (process_subscription_renewal pay d st)"
        by (rule renewal_outcome_state) (simp add: session_notify)
      have r: "renewal_of ?st1 d = renewal_of st d"
        by (simp add: renewal_of_def subscription_plan_of_def session_notify)
      from Cons.IH [OF dis(1) d f] failure show ?thesis by (simp add: o r)
    next
      case (success plan)
      let ?st1 = "notify (BillingSuccess (sub_customer_id x) (sub_id x) (price plan))
             (commit (update_subscription (sub_id x) (renewed (billing_frequency plan)) st))"
      have "find (\<lambda>s. sub_id s = sub_id d)
            (map (\<lambda>s. if sub_id s = sub_id x then renewed (billing_frequency plan) s else s)
               (subscriptions (session st)))
          = find (\<lambda>s. sub_id s = sub_id d) (subscriptions (session st))"
        by (rule find_update_other) (simp_all add: sub_id_renewed ne)
      then have f: "find (\<lambda>s. sub_id s = sub_id d) (subscriptions (session ?st1)) = Some d"
        using Cons.prems(3) by (simp add: renewed_session)
      have o: "fst (process_subscription_renewal pay d ?st1)
                 = fst (process_subscription_renewal pay d st)"
        by (rule renewal_outcome_state) (simp add: renewed_session)
      have r: "renewal_of ?st1 d = renewal_of st d"
        by (simp add: renewal_of_def subscription_plan_of_def renewed_session)
      from Cons.IH [OF dis(1) d f] success(2) show ?thesis by (simp add: o r)
    qed
  qed
qed

lemma billing_cycle_row:
  assumes "distinct (map sub_id (subscriptions (session st)))"
    and "d \<in> set (due_subscriptions now st)"
  shows "find (\<lambda>s. sub_id s = sub_id d)
           (subscriptions (session (process_billing_cycle pay now st)))
           = Some (if fst (process_subscription_renewal pay d st) = Inr ()
                   then renewal_of st d else d)"
proof -
  have a: "distinct (map sub_id (due_subscriptions now st))"
    unfolding due_subscriptions_def by (rule distinct_map_filter [OF assms(1)])
  have "d \<in> set (subscriptions (session st))"
    using assms(2) by (simp add: due_subscriptions_def)
  then have b: "find (\<lambda>s. sub_id s = sub_id d) (subscriptions (session st)) = Some d"
    by (rule find_distinct [OF assms(1)])
  show ?thesis
    unfolding process_billing_cycle_def by (rule renew_each_row [OF a assms(2) b])
qed

subsection \<open>Renewal\<close>

text \<open>
  C3.  In a sweep over a table with unique identifiers, a subscription that is due
  (active, renewing automatically, billing date \<open>D\<close> not after today) and whose plan is
  charged successfully has, after the sweep, \<open>next_billing_date = D + n days\<close>, with
  \<open>n = 30\<close> for a monthly, \<open>90\<close> for a quarterly and \<open>365\<close> for an annual plan,
  \<open>end_date\<close> equal to the new \<open>next_billing_date\<close>, \<open>current_month_preorders = 0\<close> and
  \<open>current_preorder_value = 0.0\<close>; its other columns are as before.
\<close>

theorem billing_sweep_renews:
  assumes "distinct (map sub_id (subscriptions (session st)))"
    and "sub \<in> set (subscriptions (session st))"
    and "is_due now sub"
    and "subscription_plan_of st sub = Some plan"
    and "next_billing_date sub = Some D"
    and "charge_subscription pay (sub_customer_id sub) (price plan) (payment_method_id sub)
           (''Subscription renewal - '' @ plan_name plan) = Inr receipt"
    and "(billing_frequency plan = PaymentFrequency_MONTHLY \<and> n = 30)
       \<or> (billing_frequency plan = PaymentFrequency_QUARTERLY \<and> n = 90)
       \<or> (billing_frequency plan = PaymentFrequency_ANNUALLY \<and> n = 365)"
  shows "find (\<lambda>s. sub_id s = sub_id sub)
           (subscriptions (session (process_billing_cycle pay now st)))
         = Some (sub\<lparr>next_billing_date := Some (D + timedelta_days n),
                      end_date := Some (D + timedelta_days n),
                      current_month_preorders := 0,
                      current_preorder_value := 0\<rparr>)"
proof -
  have due: "sub \<in> set (due_subscriptions now st)"
    using assms(2,3) by (simp add: due_subscriptions_def)
  have ok: "fst (process_subscription_renewal pay sub st) = Inr ()"
    using assms(4,5,6) by (simp add: process_subscription_renewal_def Let_def)
  have r: "renewal_of st sub
         = sub\<lparr>next_billing_date := Some (D + timedelta_days n),
                end_date := Some (D + timedelta_days n),
                current_month_preorders := 0,
                current_preorder_value := 0\<rparr>"
    using assms(7) by (auto simp: renewal_of_def assms(4,5) renewed_def Let_def)
  from billing_cycle_row [OF assms(1) due, of pay] show ?thesis
    by (simp add: ok r)
qed

text \<open>
  C4.  In a sweep over a table with unique identifiers, a due subscription whose renewal
  raises keeps its row as it was (\<open>next_billing_date\<close>, \<open>end_date\<close> and both counters
  included), and the sweep goes on: every other due subscription whose renewal succeeds
  has, after the sweep, the row of a successful renewal, with both counters reset.
\<close>

theorem billing_sweep_failure_isolated:
  assumes "distinct (map sub_id (subscriptions (session st)))"
    and "a \<in> set (due_subscriptions now st)"
    and "b \<in> set (due_subscriptions now st)"
    and "fst (process_subscription_renewal pay a st) = Inl e"
    and "fst (process_subscription_renewal pay b st) = Inr ()"
  shows "find (\<lambda>s. sub_id s = sub_id a)
           (subscriptions (session (process_billing_cycle pay now st))) = Some a
       \<and> find (\<lambda>s. sub_id s = sub_id b)
           (subscriptions (session (process_billing_cycle pay now st)))
          = Some (renewal_of st b)
       \<and> current_month_preorders (renewal_of st b) = 0
       \<and> current_preorder_value (renewal_of st b) = 0"
proof -
  have c: "current_month_preorders (renewal_of st b) = 0"
    "current_preorder_value (renewal_of st b) = 0"
  proof -
    have "subscription_plan_of st b \<noteq> None"
    proof (cases rule: renewal_cases [of pay b st])
      case (failure e')
      with assms(5) show ?thesis by simp
    next
      case (success plan)
      then show ?thesis by simp
    qed
    then show "current_month_preorders (renewal_of st b) = 0"
      "current_preorder_value (renewal_of st b) = 0"
      by (auto simp: renewal_of_def renewed_def Let_def)
  qed
  from billing_cycle_row [OF assms(1,2), of pay] billing_cycle_row [OF assms(1,3), of pay] c
  show ?thesis by (simp add: assms(4,5))
qed

lemmas sweep_defs = process_billing_cycle_def due_subscriptions_def is_due_def
  process_subscription_renewal_def renewed_def renewal_of_def date_of_def usec_per_day_def
  timedelta_days_def

theorem billing_sweep_renews_witness:
  "find (\<lambda>s. sub_id s = 1)
     (subscriptions (session (process_billing_cycle pay_ok ex_now
        (ex_state [ex_sub_used, ex_sub2] [ex_product_used] [ex_order]))))
   = Some (ex_sub_used\<lparr>next_billing_date := Some 63848649600000000,
                        end_date := Some 63848649600000000,
                        current_month_preorders := 0,
                        current_preorder_value := 0\<rparr>)"
proof -
  let ?st = "ex_state [ex_sub_used, ex_sub2] [ex_product_used] [ex_order]"
  have a: "distinct (map sub_id (subscriptions (session ?st)))"
    "ex_sub_used \<in> set (subscriptions (session ?st))"
    "is_due ex_now ex_sub_used"
    "subscription_plan_of ?st ex_sub_used = Some ex_plan"
    "next_billing_date ex_sub_used = Some 63846057600000000"
    by (simp_all add: sweep_defs run_defs ex_defs)
  have b: "charge_subscription pay_ok (sub_customer_id ex_sub_used) (price ex_plan)
             (payment_method_id ex_sub_used) (''Subscription renewal - '' @ plan_name ex_plan)
           = Inr ''receipt''"
    by (simp add: pay_ok_def)
  have c: "billing_frequency ex_plan = PaymentFrequency_MONTHLY \<and> (30::int) = 30
       \<or> billing_frequency ex_plan = PaymentFrequency_QUARTERLY \<and> (30::int) = 90
       \<or> billing_frequency ex_plan = PaymentFrequency_ANNUALLY \<and> (30::int) = 365"
    by (simp add: ex_plan_def)
  from billing_sweep_renews [OF a b c] show ?thesis
    by (simp add: timedelta_days_def usec_per_day_def) (simp add: ex_defs)
qed

theorem billing_sweep_failure_isolated_witness:
  "find (\<lambda>s. sub_id s = 1)
     (subscriptions (session (process_billing_cycle pay_declined_7 ex_now
        (ex_state [ex_sub_used, ex_sub2] [ex_product_used] [ex_order]))))
   = Some ex_sub_used
   \<and> find (\<lambda>s. sub_id s = 2)
     (subscriptions (session (process_billing_cycle pay_declined_7 ex_now
        (ex_state [ex_sub_used, ex_sub2] [ex_product_used] [ex_order]))))
   = Some (ex_sub2\<lparr>next_billing_date := Some 63848217600000000,
                    end_date := Some 63848217600000000,
                    current_month_preorders := 0,
                    current_preorder_value := 0\<rparr>)"
proof -
  let ?st = "ex_state [ex_sub_used, ex_sub2] [ex_product_used] [ex_order]"
  have a: "distinct (map sub_id (subscriptions (session ?st)))"
    "ex_sub_used \<in> set (due_subscriptions ex_now ?st)"
    "ex_sub2 \<in> set (due_subscriptions ex_now ?st)"
    "fst (process_subscription_renewal pay_declined_7 ex_sub_used ?st)
       = Inl (PaymentFailed ''declined'')"
    "fst (process_subscription_renewal pay_declined_7 ex_sub2 ?st) = Inr ()"
    by (simp_all add: sweep_defs run_defs ex_defs)
  have r: "renewal_of ?st ex_sub2
          = ex_sub2\<lparr>next_billing_date := Some 63848217600000000,
                    end_date := Some 63848217600000000,
                    current_month_preorders := 0,
                    current_preorder_value := 0\<rparr>"
    by (simp add: sweep_defs run_defs ex_defs)
  from billing_sweep_failure_isolated [OF a] show ?thesis
    by (simp add: r) (simp add: ex_defs)
qed

subsection \<open>The counters and zero\<close>

lemma rnd_minus: "rnd (- x) = - rnd x"
proof -
  have "rnd_pos 0 = 0" using rnd_zero by (simp add: rnd_def)
  then show ?thesis by (cases "x = 0") (auto simp: rnd_def)
qed

lemma counters_nonneg_subscriptions:
  "subscriptions t' = subscriptions t \<Longrightarrow> counters_nonneg t' = counters_nonneg t"
  by (simp add: counters_nonneg_def)

lemma counters_nonneg_map:
  assumes "counters_nonneg t"
    and "subscriptions t' = map f (subscriptions t)"
    and "\<And>s. 0 \<le> current_month_preorders s \<Longrightarrow> 0 \<le> current_preorder_value s \<Longrightarrow>
           s \<in> set (subscriptions t) \<Longrightarrow>
           0 \<le> current_month_preorders (f s) \<and> 0 \<le> current_preorder_value (f s)"
  shows "counters_nonneg t'"
  using assms by (auto simp: counters_nonneg_def list_all_iff)

text \<open>
  C5.  The property: \<open>current_month_preorders\<close> and \<open>current_preorder_value\<close> of every
  subscription are non-negative at every point reachable by the core operations, in
  particular when a still-pending pre-order is cancelled after a billing renewal has
  reset the counters.  The code breaks it on exactly that sequence.  From a state with
  both counters at zero: a pre-order is created (counters \<open>1\<close> and \<open>60.0\<close>), the billing
  sweep renews the subscription (counters reset to zero), and the pre-order, still
  pending, is cancelled.  The counters are then \<open>-1\<close> and \<open>-60.0\<close>, in the session and
  committed.
\<close>

theorem counters_counterexample:
  "counters_nonneg (session (ex_state [ex_sub] [ex_product] []))
   \<and> map current_month_preorders
       (subscriptions (session
          (run pay_ok [CreatePreOrder ex_now 1 1 1 None 1, BillingCycle ex_now, CancelPreOrder 1]
             (ex_state [ex_sub] [ex_product] [])))) = [- 1]
   \<and> map current_preorder_value
       (subscriptions (committed
          (run pay_ok [CreatePreOrder ex_now 1 1 1 None 1, BillingCycle ex_now, CancelPreOrder 1]
             (ex_state [ex_sub] [ex_product] [])))) = [- 60]
   \<and> \<not> counters_nonneg (session
          (run pay_ok [CreatePreOrder ex_now 1 1 1 None 1, BillingCycle ex_now, CancelPreOrder 1]
             (ex_state [ex_sub] [ex_product] [])))"
proof -
  have a: "apply_operation pay_ok (CreatePreOrder ex_now 1 1 1 None 1)
             (ex_state [ex_sub] [ex_product] [])
           = \<lparr> session = ex_tables [ex_sub_used] [ex_product_used] [ex_order],
               committed = ex_tables [ex_sub_used] [ex_product_used] [ex_order],
               sent = [PreOrderConfirmation 7 1] \<rparr>"
    by (simp add: run_defs Let_def ex_defs)
  have b: "apply_operation pay_ok (BillingCycle ex_now)
             \<lparr> session = ex_tables [ex_sub_used] [ex_product_used] [ex_order],
               committed = ex_tables [ex_sub_used] [ex_product_used] [ex_order],
               sent = [PreOrderConfirmation 7 1] \<rparr>
           = \<lparr> session = ex_tables
                 [ex_sub\<lparr>next_billing_date := Some 63848649600000000,
                         end_date := Some 63848649600000000\<rparr>] [ex_product_used] [ex_order],
               committed = ex_tables
                 [ex_sub\<lparr>next_billing_date := Some 63848649600000000,
                         end_date := Some 63848649600000000\<rparr>] [ex_product_used] [ex_order],
               sent = [PreOrderConfirmation 7 1, BillingSuccess 7 1 30] \<rparr>"
    by (simp add: sweep_defs run_defs Let_def ex_defs)
  have c: "apply_operation pay_ok (CancelPreOrder 1)
             \<lparr> session = ex_tables
                 [ex_sub\<lparr>next_billing_date := Some 63848649600000000,
                         end_date := Some 63848649600000000\<rparr>] [ex_product_used] [ex_order],
               committed = ex_tables
                 [ex_sub\<lparr>next_billing_date := Some 63848649600000000,
                         end_date := Some 63848649600000000\<rparr>] [ex_product_used] [ex_order],
               sent = [PreOrderConfirmation 7 1, BillingSuccess 7 1 30] \<rparr>
           = \<lparr> session = ex_tables
                 [ex_sub\<lparr>next_billing_date := Some 63848649600000000,
                         end_date := Some 63848649600000000,
                         current_month_preorders := - 1, current_preorder_value := - 60\<rparr>]
                 [ex_product] [ex_order\<lparr>po_status := PreOrderStatus_CANCELLED\<rparr>],
               committed = ex_tables
                 [ex_sub\<lparr>next_billing_date := Some 63848649600000000,
                         end_date := Some 63848649600000000,
                         current_month_preorders := - 1, current_preorder_value := - 60\<rparr>]
                 [ex_product] [ex_order\<lparr>po_status := PreOrderStatus_CANCELLED\<rparr>],
               sent = [PreOrderConfirmation 7 1, BillingSuccess 7 1 30,
                       PreOrderCancelled 7 1] \<rparr>"
    by (simp add: cancel_pre_order_def run_defs rnd_minus Let_def ex_defs)
  have r: "run pay_ok [CreatePreOrder ex_now 1 1 1 None 1, BillingCycle ex_now, CancelPreOrder 1]
             (ex_state [ex_sub] [ex_product] [])
           = \<lparr> session = ex_tables
                 [ex_sub\<lparr>next_billing_date := Some 63848649600000000,
                         end_date := Some 63848649600000000,
                         current_month_preorders := - 1, current_preorder_value := - 60\<rparr>]
                 [ex_product] [ex_order\<lparr>po_status := PreOrderStatus_CANCELLED\<rparr>],
               committed = ex_tables
                 [ex_sub\<lparr>next_billing_date := Some 63848649600000000,
                         end_date := Some 63848649600000000,
                         current_month_preorders := - 1, current_preorder_value := - 60\<rparr>]
                 [ex_product] [ex_order\<lparr>po_status := PreOrderStatus_CANCELLED\<rparr>],
               sent = [PreOrderConfirmation 7 1, BillingSuccess 7 1 30,
                       PreOrderCancelled 7 1] \<rparr>"
    by (simp only: run.simps a b c)
  show ?thesis
    unfolding r by (simp add: counters_nonneg_def ex_defs)
qed

lemma create_pre_order_InlD:
  assumes "create_pre_order now sid pid q v pr st = (Inl e, st')"
  shows "st' = st \<or> st' = st\<lparr>session := committed st\<rparr>"
proof (cases "ledger_inputs now sid pid q st")
  case None
  from ledger_inputs_None [OF this, of v pr] assms show ?thesis by auto
next
  case (Some sp)
  obtain sub prd where li: "ledger_inputs now sid pid q st = Some (sub, prd)"
    using Some by (cases sp) simp
  show ?thesis
  proof (cases "validate_subscription_limits now sub prd q st")
    case (Inl e')
    from create_pre_order_rejected [OF li Inl, of v pr] assms show ?thesis by simp
  next
    case (Inr u)
    show ?thesis
    proof (cases "subscription_plan_of st sub")
      case None
      with ledger_inputsD [OF li] Inr assms show ?thesis by (simp add: create_pre_order_def)
    next
      case (Some plan)
      show ?thesis
      proof (cases "flush_fits prd q v pr")
        case True
        from create_pre_order_accepted [OF li Inr Some True] assms show ?thesis by auto
      next
        case False
        from create_pre_order_overflow [OF li Inr Some False] assms show ?thesis by simp
      qed
    qed
  qed
qed

lemma create_keeps_counters:
  assumes "counters_nonneg (session st)" and "counters_nonneg (committed st)"
    and "guard pay (CreatePreOrder now sid pid q v pr) st"
  shows "counters_nonneg (session (snd (create_pre_order now sid pid q v pr st)))
       \<and> counters_nonneg (committed (snd (create_pre_order now sid pid q v pr st)))"
proof (cases "create_pre_order now sid pid q v pr st")
  case (Pair r st')
  show ?thesis
  proof (cases r)
    case (Inl e)
    with Pair have "create_pre_order now sid pid q v pr st = (Inl e, st')" by simp
    from create_pre_order_InlD [OF this] have "st' = st \<or> st' = st\<lparr>session := committed st\<rparr>" .
    with Pair assms(1,2) show ?thesis by auto
  next
    case (Inr po)
    with Pair have c: "create_pre_order now sid pid q v pr st = (Inr po, st')" by simp
    from assms(3) c have t: "0 \<le> total_amount po" by simp
    from create_pre_order_InrD [OF c] obtain sub :: subscription and prd :: product where
      st': "st' = notify (PreOrderConfirmation (sub_customer_id sub) (po_id po))
                   (commit
                     (update_subscription (sub_id sub)
                        (\<lambda>s. s\<lparr>current_month_preorders := current_month_preorders s + 1,
                               current_preorder_value :=
                                 fadd (current_preorder_value s) (total_amount po)\<rparr>)
                        (update_product (prod_id prd)
                           (\<lambda>p. p\<lparr>current_pre_orders := current_pre_orders p + q\<rparr>)
                           (add_pre_order po st))))"
      by blast
    have s: "subscriptions (session st') =
        map (\<lambda>s. if sub_id s = sub_id sub
                  then s\<lparr>current_month_preorders := current_month_preorders s + 1,
                         current_preorder_value :=
                           fadd (current_preorder_value s) (total_amount po)\<rparr>
                  else s) (subscriptions (session st))"
      and cm: "committed st' = session st'"
      by (simp_all add: st' notify_def commit_def update_subscription_def update_product_def
          add_pre_order_def)
    have "counters_nonneg (session st')"
      by (rule counters_nonneg_map [OF assms(1) s]) (auto simp: fadd_def t intro!: rnd_nonneg)
    with cm c show ?thesis by simp
  qed
qed

lemma renewal_keeps_counters:
  assumes "counters_nonneg (session st)" and "counters_nonneg (committed st)"
  shows "counters_nonneg (session (snd (process_subscription_renewal pay sub st)))
       \<and> counters_nonneg (committed (snd (process_subscription_renewal pay sub st)))"
proof (cases rule: renewal_cases [of pay sub st])
  case (failure e)
  with assms show ?thesis by simp
next
  case (success plan)
  let ?st' = "notify (BillingSuccess (sub_customer_id sub) (sub_id sub) (price plan))
       (commit (update_subscription (sub_id sub) (renewed (billing_frequency plan)) st))"
  have s: "subscriptions (session ?st') =
      map (\<lambda>s. if sub_id s = sub_id sub then renewed (billing_frequency plan) s else s)
        (subscriptions (session st))"
    by (rule renewed_session)
  have cm: "committed ?st' = session ?st'" by (simp add: notify_def commit_def)
  have "counters_nonneg (session ?st')"
    by (rule counters_nonneg_map [OF assms(1) s]) (auto simp: renewed_def Let_def)
  with cm success(2) show ?thesis by simp
qed

lemma renew_each_keeps_counters:
  "counters_nonneg (session st) \<Longrightarrow> counters_nonneg (committed st) \<Longrightarrow>
     counters_nonneg (session (renew_each pay ds st))
   \<and> counters_nonneg (committed (renew_each pay ds st))"
proof (induction ds arbitrary: st)
  case Nil
  then show ?case by simp
next
  case (Cons x rest)
  from renewal_keeps_counters [OF Cons.prems, of pay x]
  have k: "counters_nonneg (session (snd (process_subscription_renewal pay x st)))"
    "counters_nonneg (committed (snd (process_subscription_renewal pay x st)))"
    by simp_all
  show ?case
  proof (cases "process_subscription_renewal pay x st")
    case (Pair r st')
    with k have k': "counters_nonneg (session st')" "counters_nonneg (committed st')" by simp_all
    show ?thesis
    proof (cases r)
      case (Inl e)
      have "counters_nonneg (session (notify (BillingFailed (sub_customer_id x) (sub_id x) e) st'))"
        "counters_nonneg (committed (notify (BillingFailed (sub_customer_id x) (sub_id x) e) st'))"
        using k' by (simp_all add: notify_def)
      from Cons.IH [OF this] Pair Inl show ?thesis by simp
    next
      case (Inr u)
      from Cons.IH [OF k'] Pair Inr show ?thesis by simp
    qed
  qed
qed

lemma cancel_keeps_counters:
  assumes "counters_nonneg (session st)" and "counters_nonneg (committed st)"
    and "covered k st"
  shows "counters_nonneg (session (snd (cancel_pre_order pay k st)))
       \<and> counters_nonneg (committed (snd (cancel_pre_order pay k st)))"
proof (cases "find (\<lambda>p. po_id p = k) (pre_orders (session st))")
  case None
  with assms(1,2) show ?thesis by (simp add: cancel_pre_order_def)
next
  case (Some po)
  note po = this
  show ?thesis
  proof (cases "po_status po = PreOrderStatus_CANCELLED \<or> po_status po = PreOrderStatus_PROCESSING
      \<or> po_status po = PreOrderStatus_FULFILLED")
    case True
    with po assms(1,2) show ?thesis by (auto simp: cancel_pre_order_def)
  next
    case False
    then have stat: "po_status po \<noteq> PreOrderStatus_CANCELLED"
      "po_status po \<noteq> PreOrderStatus_PROCESSING" "po_status po \<noteq> PreOrderStatus_FULFILLED"
      by simp_all
    let ?st1 = "update_pre_order k (\<lambda>p. p\<lparr>po_status := PreOrderStatus_CANCELLED\<rparr>) st"
    have s1: "subscriptions (session ?st1) = subscriptions (session st)"
      "committed ?st1 = committed st"
      by (simp_all add: update_pre_order_def)
    show ?thesis
    proof (cases "product_of st po")
      case None
      then have "cancel_pre_order pay k st = (Inl (AttributeError ''current_pre_orders''), ?st1)"
        using po stat by (simp add: cancel_pre_order_def relations_after_update)
      with assms(1,2) s1 show ?thesis by (simp add: counters_nonneg_def)
    next
      case (Some prd)
      note prd = this
      let ?st2 = "update_product (prod_id prd)
                      (\<lambda>p. p\<lparr>current_pre_orders := current_pre_orders p - quantity po\<rparr>) ?st1"
      have s2: "subscriptions (session ?st2) = subscriptions (session st)"
        "committed ?st2 = committed st"
        by (simp_all add: update_pre_order_def update_product_def)
      show ?thesis
      proof (cases "subscription_of st po")
        case None
        then have "cancel_pre_order pay k st
                     = (Inl (AttributeError ''current_month_preorders''), ?st2)"
          using po stat prd by (simp add: cancel_pre_order_def relations_after_update Let_def)
        with assms(1,2) s2 show ?thesis by (simp add: counters_nonneg_def)
      next
        case (Some sub)
        let ?f = "\<lambda>s. if sub_id s = po_subscription_id po
                      then s\<lparr>current_month_preorders := current_month_preorders s - 1,
                             current_preorder_value :=
                               fsub (current_preorder_value s) (total_amount po)\<rparr>
                      else s"
        let ?st3 = "update_subscription (po_subscription_id po)
                 (\<lambda>s. s\<lparr>current_month_preorders := current_month_preorders s - 1,
                        current_preorder_value :=
                          fsub (current_preorder_value s) (total_amount po)\<rparr>)
                 (update_product (po_product_id po)
                    (\<lambda>p. p\<lparr>current_pre_orders := current_pre_orders p - quantity po\<rparr>)
                    (update_pre_order k (\<lambda>p. p\<lparr>po_status := PreOrderStatus_CANCELLED\<rparr>) st))"
        note run = cancel_pre_order_run [OF po stat prd Some refl, of pay]
        have s3: "subscriptions (session ?st3) = map ?f (subscriptions (session st))"
          and c3: "committed ?st3 = committed st"
          by (simp_all add: update_subscription_def update_product_def update_pre_order_def)
        from assms(3) po stat have cov:
          "list_all (\<lambda>s. sub_id s \<noteq> po_subscription_id po
                           \<or> (1 \<le> current_month_preorders s
                              \<and> total_amount po \<le> current_preorder_value s))
                (subscriptions (session st))"
          by (simp add: covered_def)
        have n3: "counters_nonneg (session ?st3)"
        proof (rule counters_nonneg_map [OF assms(1) s3])
          fix s
          assume a: "0 \<le> current_month_preorders s" "0 \<le> current_preorder_value s"
            "s \<in> set (subscriptions (session st))"
          show "0 \<le> current_month_preorders (?f s) \<and> 0 \<le> current_preorder_value (?f s)"
          proof (cases "sub_id s = po_subscription_id po")
            case True
            with cov a(3) have "1 \<le> current_month_preorders s"
              "total_amount po \<le> current_preorder_value s"
              by (auto simp: list_all_iff)
            with True show ?thesis by (simp add: fsub_def rnd_nonneg)
          next
            case False
            with a show ?thesis by simp
          qed
        qed
        have n4: "counters_nonneg (session (update_pre_order k
                     (\<lambda>p. p\<lparr>payment_status := ''refunded''\<rparr>) ?st3))"
          using n3 by (simp add: counters_nonneg_def update_pre_order_def)
        show ?thesis
        proof (cases "payment_status po = ''charged''")
          case True
          show ?thesis
          proof (cases "refund_payment pay (payment_intent_id po) (total_amount po)")
            case (Inl e)
            with True have "cancel_pre_order pay k st = (Inl e, ?st3)" by (simp add: run)
            with n3 c3 assms(2) show ?thesis by simp
          next
            case (Inr u)
            with True have "cancel_pre_order pay k st
              = (Inr (), notify (PreOrderCancelled (po_customer_id po) k)
                   (commit (update_pre_order k (\<lambda>p. p\<lparr>payment_status := ''refunded''\<rparr>) ?st3)))"
              by (simp add: run)
            with n4 show ?thesis by (simp add: notify_def commit_def)
          qed
        next
          case False
          then have "cancel_pre_order pay k st
              = (Inr (), notify (PreOrderCancelled (po_customer_id po) k) (commit ?st3))"
            by (simp add: run)
          with n3 show ?thesis by (simp add: notify_def commit_def)
        qed
      qed
    qed
  qed
qed

lemma cancel_each_keeps_counters:
  "counters_nonneg (session st) \<Longrightarrow> counters_nonneg (committed st) \<Longrightarrow>
   cascade_covered pay ks st \<Longrightarrow>
     counters_nonneg (session (snd (cancel_each pay ks st)))
   \<and> counters_nonneg (committed (snd (cancel_each pay ks st)))"
proof (induction ks arbitrary: st)
  case Nil
  then show ?case by simp
next
  case (Cons k ks)
  from Cons.prems(3) have cov: "covered k st" by simp
  from cancel_keeps_counters [OF Cons.prems(1,2) cov, of pay]
  have n: "counters_nonneg (session (snd (cancel_pre_order pay k st)))"
    "counters_nonneg (committed (snd (cancel_pre_order pay k st)))"
    by simp_all
  show ?case
  proof (cases "cancel_pre_order pay k st")
    case (Pair r st')
    with n have n': "counters_nonneg (session st')" "counters_nonneg (committed st')" by simp_all
    show ?thesis
    proof (cases r)
      case (Inl e)
      with Pair n' show ?thesis by simp
    next
      case (Inr u)
      with Pair Cons.prems(3) have "cascade_covered pay ks st'" by simp
      from Cons.IH [OF n' this] Pair Inr show ?thesis by simp
    qed
  qed
qed

lemma cancel_subscription_keeps_counters:
  assumes "counters_nonneg (session st)" and "counters_nonneg (committed st)"
    and "guard pay (CancelSubscription now sid immediate) st"
  shows "counters_nonneg (session (snd (cancel_subscription pay now sid immediate st)))
       \<and> counters_nonneg (committed (snd (cancel_subscription pay now sid immediate st)))"
proof (cases "find (\<lambda>s. sub_id s = sid) (subscriptions (session st))")
  case None
  with assms(1,2) show ?thesis by (simp add: cancel_subscription_def)
next
  case (Some sub)
  note sub = this
  show ?thesis
  proof (cases "sub_status sub = SubscriptionStatus_CANCELLED")
    case True
    with sub assms(1,2) show ?thesis by (simp add: cancel_subscription_def)
  next
    case False
    let ?st1 = "(if immediate
                 then update_subscription sid
                        (\<lambda>s. s\<lparr>sub_status := SubscriptionStatus_CANCELLED,
                               end_date := Some now\<rparr>) st
                 else update_subscription sid
                        (\<lambda>s. s\<lparr>auto_renew := False,
                               sub_status := SubscriptionStatus_CANCELLED\<rparr>) st)"
    let ?ks = "map po_id
                     (filter (\<lambda>p. po_subscription_id p = sid
                                  \<and> po_status p = PreOrderStatus_PENDING)
                        (pre_orders (session ?st1)))"
    have cs: "cascade_start now sid immediate st = Some (?ks, ?st1)"
      using sub False by (simp add: cascade_start_def Let_def)
    with assms(3) have cov: "cascade_covered pay ?ks ?st1" by simp
    have n1: "counters_nonneg (session ?st1)" "counters_nonneg (committed ?st1)"
      using assms(1,2)
      by (auto simp: counters_nonneg_def update_subscription_def list_all_iff)
    from cancel_each_keeps_counters [OF n1 cov]
    have n2: "counters_nonneg (session (snd (cancel_each pay ?ks ?st1)))"
      "counters_nonneg (committed (snd (cancel_each pay ?ks ?st1)))"
      by simp_all
    show ?thesis
    proof (cases "cancel_each pay ?ks ?st1")
      case (Pair r st2)
      with n2 have n2': "counters_nonneg (session st2)" "counters_nonneg (committed st2)"
        by simp_all
      have "snd (cancel_subscription pay now sid immediate st)
              = (case r of Inl e \<Rightarrow> st2
                 | Inr u \<Rightarrow> notify (SubscriptionCancelled (sub_customer_id sub) sid immediate)
                             (commit st2))"
        using sub False Pair by (simp add: cancel_subscription_def Let_def split: sum.split)
      with n2' show ?thesis
        by (cases r) (simp_all add: notify_def commit_def)
    qed
  qed
qed

lemma operation_keeps_counters:
  assumes "counters_nonneg (session st)" and "counters_nonneg (committed st)"
    and "guard pay x st"
  shows "counters_nonneg (session (apply_operation pay x st))
       \<and> counters_nonneg (committed (apply_operation pay x st))"
proof (cases x)
  case (CreatePreOrder now sid pid q v pr)
  with create_keeps_counters [OF assms(1,2), of pay now sid pid q v pr] assms(3)
  show ?thesis by simp
next
  case (CancelPreOrder k)
  with cancel_keeps_counters [OF assms(1,2), of k pay] assms(3) show ?thesis by simp
next
  case (CancelSubscription now sid immediate)
  with cancel_subscription_keeps_counters [OF assms(1,2), of pay now sid immediate] assms(3)
  show ?thesis by simp
next
  case (BillingCycle now)
  with renew_each_keeps_counters [OF assms(1,2), of pay "due_subscriptions now st"]
  show ?thesis by (simp add: process_billing_cycle_def)
qed

text \<open>
  Where the counters do stay non-negative.  From a state in which
  \<open>current_month_preorders\<close> and \<open>current_preorder_value\<close> of every subscription are
  non-negative, in the session and committed, they are non-negative after every
  sequence of \<open>create_pre_order\<close>, \<open>cancel_pre_order\<close>, \<open>cancel_subscription\<close> and billing
  sweeps in which every pre-order created has a non-negative total and every
  cancellation of a pre-order, direct or in the cascade of \<open>cancel_subscription\<close>, finds
  \<open>current_month_preorders\<close> of at least one and \<open>current_preorder_value\<close> of at least the
  total of the pre-order on its subscription.  The decrement of \<open>cancel_pre_order\<close> has no
  floor of its own, so a cancellation that is not covered in this sense is what takes
  a counter below zero.
\<close>

theorem counters_nonneg_guarded:
  assumes "counters_nonneg (session st)" and "counters_nonneg (committed st)"
    and "guarded pay ops st"
  shows "counters_nonneg (session (run pay ops st))
       \<and> counters_nonneg (committed (run pay ops st))"
  using assms
proof (induction ops arbitrary: st)
  case Nil
  then show ?case by simp
next
  case (Cons x xs)
  from Cons.prems(3) have g: "guard pay x st" "guarded pay xs (apply_operation pay x st)"
    by simp_all
  from operation_keeps_counters [OF Cons.prems(1,2) g(1)]
  have "counters_nonneg (session (apply_operation pay x st))"
    "counters_nonneg (committed (apply_operation pay x st))" by simp_all
  from Cons.IH [OF this g(2)] show ?case by simp
qed

theorem counters_nonneg_guarded_witness:
  "counters_nonneg (session (ex_state [ex_sub] [ex_product] []))
   \<and> counters_nonneg (committed (ex_state [ex_sub] [ex_product] []))
   \<and> guarded pay_ok
       [CreatePreOrder ex_now 1 1 1 None 1, CancelPreOrder 1, BillingCycle ex_now,
        CreatePreOrder ex_now 1 1 1 None 1, CancelSubscription ex_now 1 True]
       (ex_state [ex_sub] [ex_product] [])
   \<and> counters_nonneg (session (run pay_ok
       [CreatePreOrder ex_now 1 1 1 None 1, CancelPreOrder 1, BillingCycle ex_now,
        CreatePreOrder ex_now 1 1 1 None 1, CancelSubscription ex_now 1 True]
       (ex_state [ex_sub] [ex_product] [])))
   \<and> counters_nonneg (committed (run pay_ok
       [CreatePreOrder ex_now 1 1 1 None 1, CancelPreOrder 1, BillingCycle ex_now,
        CreatePreOrder ex_now 1 1 1 None 1, CancelSubscription ex_now 1 True]
       (ex_state [ex_sub] [ex_product] [])))"
proof -
  let ?s1 = "\<lparr> session = ex_tables [ex_sub_used] [ex_product_used] [ex_order],
             committed = ex_tables [ex_sub_used] [ex_product_used] [ex_order],
             sent = [PreOrderConfirmation 7 1] \<rparr>"
  let ?s2 = "\<lparr> session = ex_tables [ex_sub] [ex_product]
                         [ex_order\<lparr>po_status := PreOrderStatus_CANCELLED\<rparr>],
             committed = ex_tables [ex_sub] [ex_product]
                         [ex_order\<lparr>po_status := PreOrderStatus_CANCELLED\<rparr>],
             sent = [PreOrderConfirmation 7 1, PreOrderCancelled 7 1] \<rparr>"
  let ?s3 = "\<lparr> session = ex_tables
                 [ex_sub\<lparr>next_billing_date := Some 63848649600000000,
                         end_date := Some 63848649600000000\<rparr>] [ex_product]
                 [ex_order\<lparr>po_status := PreOrderStatus_CANCELLED\<rparr>],
             committed = ex_tables
                 [ex_sub\<lparr>next_billing_date := Some 63848649600000000,
                         end_date := Some 63848649600000000\<rparr>] [ex_product]
                 [ex_order\<lparr>po_status := PreOrderStatus_CANCELLED\<rparr>],
             sent = [PreOrderConfirmation 7 1, PreOrderCancelled 7 1, BillingSuccess 7 1 30] \<rparr>"
  let ?s4 = "\<lparr> session = ex_tables
                 [ex_sub_used\<lparr>next_billing_date := Some 63848649600000000,
                              end_date := Some 63848649600000000\<rparr>] [ex_product_used]
                 [ex_order\<lparr>po_status := PreOrderStatus_CANCELLED\<rparr>, ex_order\<lparr>po_id := 2\<rparr>],
             committed = ex_tables
                 [ex_sub_used\<lparr>next_billing_date := Some 63848649600000000,
                              end_date := Some 63848649600000000\<rparr>] [ex_product_used]
                 [ex_order\<lparr>po_status := PreOrderStatus_CANCELLED\<rparr>, ex_order\<lparr>po_id := 2\<rparr>],
             sent = [PreOrderConfirmation 7 1, PreOrderCancelled 7 1, BillingSuccess 7 1 30,
                     PreOrderConfirmation 7 2] \<rparr>"
  have a: "counters_nonneg (session (ex_state [ex_sub] [ex_product] []))"
    "counters_nonneg (committed (ex_state [ex_sub] [ex_product] []))"
    by (simp_all add: counters_nonneg_def ex_defs)
  have c1: "create_pre_order ex_now 1 1 1 None 1 (ex_state [ex_sub] [ex_product] [])
        = (Inr ex_order, ?s1)"
    by (simp add: run_defs Let_def ex_defs)
  have c2: "cancel_pre_order pay_ok 1 ?s1 = (Inr (), ?s2)"
    by (simp add: cancel_pre_order_def run_defs Let_def ex_defs)
  have c3: "process_billing_cycle pay_ok ex_now ?s2 = ?s3"
    by (simp add: sweep_defs run_defs Let_def ex_defs)
  have c4: "create_pre_order ex_now 1 1 1 None 1 ?s3 = (Inr (ex_order\<lparr>po_id := 2\<rparr>), ?s4)"
    by (simp add: run_defs ex_month_start Let_def ex_plan_def ex_sub_def ex_product_def
        ex_order_def ex_tables_def ex_state_def ex_sub_used_def ex_product_used_def)
       (simp add: ex_now_def)
  have g1: "guard pay_ok (CreatePreOrder ex_now 1 1 1 None 1) (ex_state [ex_sub] [ex_product] [])"
    by (simp add: c1 ex_order_def)
  have g2: "guard pay_ok (CancelPreOrder 1) ?s1"
    by (simp add: covered_def ex_defs)
  have g4: "guard pay_ok (CreatePreOrder ex_now 1 1 1 None 1) ?s3"
    by (simp only: guard.simps c4 fst_conv sum.case) (simp add: ex_order_def)
  have g5: "guard pay_ok (CancelSubscription ex_now 1 True) ?s4"
    by (simp add: cascade_start_def covered_def cancel_pre_order_def run_defs Let_def ex_defs)
  have g: "guarded pay_ok
       [CreatePreOrder ex_now 1 1 1 None 1, CancelPreOrder 1, BillingCycle ex_now,
        CreatePreOrder ex_now 1 1 1 None 1, CancelSubscription ex_now 1 True]
       (ex_state [ex_sub] [ex_product] [])"
    by (simp only: guarded.simps apply_operation.simps c1 c2 c3 c4 g1 g2 g4 g5 snd_conv) simp
  from a g counters_nonneg_guarded [OF a g] show ?thesis by blast
qed

end
